theory Spec2Isabelle
  imports Complex_Main
begin

section \<open>Python strings\<close>

text \<open>
  A Python \<open>str\<close> is modelled as the list of its characters. The characters of the model
  are the code points below 256; every marker the program looks for (backticks, braces,
  \<open>json\<close>) is ASCII.
\<close>

definition isspace :: "char \<Rightarrow> bool" where
  \<comment> \<open>the characters \<open>str.strip()\<close> removes: \<open>\t \n \v \f \r\<close>, \<open>0x1c\<close> to \<open>0x1f\<close>, space,
     \<open>0x85\<close> and \<open>0xa0\<close>\<close>
  "isspace c =
     (let n = (of_char c :: nat)
      in (9 \<le> n \<and> n \<le> 13) \<or> (28 \<le> n \<and> n \<le> 32) \<or> n = 133 \<or> n = 160)"

definition strip :: "string \<Rightarrow> string" where
  "strip text = rev (dropWhile isspace (rev (dropWhile isspace text)))"

definition startswith :: "string \<Rightarrow> string \<Rightarrow> bool" where
  "startswith text p = (take (length p) text = p)"

definition endswith :: "string \<Rightarrow> string \<Rightarrow> bool" where
  "endswith text p =
     (length p \<le> length text \<and> drop (length text - length p) text = p)"

definition py_find :: "string \<Rightarrow> char \<Rightarrow> int" where
  \<comment> \<open>\<open>text.find(c)\<close> for a one-character string: lowest index, or \<open>-1\<close>\<close>
  "py_find text c =
     (if c \<in> set text then int (length (takeWhile (\<lambda>x. x \<noteq> c) text)) else - 1)"

definition py_rfind :: "string \<Rightarrow> char \<Rightarrow> int" where
  \<comment> \<open>\<open>text.rfind(c)\<close> for a one-character string: highest index, or \<open>-1\<close>\<close>
  "py_rfind text c =
     (if c \<in> set text
      then int (length text) - 1 - int (length (takeWhile (\<lambda>x. x \<noteq> c) (rev text)))
      else - 1)"

definition slice_index :: "nat \<Rightarrow> int \<Rightarrow> nat" where
  \<comment> \<open>a slice bound on a sequence of length \<open>n\<close>: negative bounds count from the end, and
     every bound is clamped into \<open>0..n\<close>\<close>
  "slice_index n i = (if i < 0 then nat (max 0 (int n + i)) else min n (nat i))"

definition py_slice :: "'a list \<Rightarrow> int \<Rightarrow> int \<Rightarrow> 'a list" where
  \<comment> \<open>\<open>xs[a:b]\<close>\<close>
  "py_slice xs a b = drop (slice_index (length xs) a) (take (slice_index (length xs) b) xs)"

definition join :: "string \<Rightarrow> string list \<Rightarrow> string" where
  \<comment> \<open>\<open>sep.join(xs)\<close>\<close>
  "join sep xs = concat (case xs of [] \<Rightarrow> [] | x # rest \<Rightarrow> x # map (\<lambda>y. sep @ y) rest)"

section \<open>The response extractor\<close>

definition clean_json_response :: "string \<Rightarrow> string" where
  "clean_json_response text0 =
     (let text1 = (if startswith text0 ''```json'' then drop 7 text0 else text0);
          text2 = (if startswith text1 ''```'' then drop 3 text1 else text1);
          text3 = (if endswith text2 ''```'' then take (length text2 - 3) text2 else text2);
          start = py_find text3 (CHR ''{'');
          stop = py_rfind text3 (CHR ''}'') + 1;
          text4 = (if start \<noteq> - 1 \<and> stop \<noteq> 0 then py_slice text3 start stop else text3)
      in strip text4)"


section \<open>Python values\<close>

text \<open>
  The values the program handles are what \<open>json.loads\<close> and \<open>response.json()\<close> return, and
  the program never checks their shape: it subscripts and iterates them, and an exception
  inside a \<open>try\<close> block is the failure signal. A \<open>dict\<close> is kept as the list of its items in
  insertion order (keys distinct); a float is a real number or one of the three non-finite
  values \<open>json.loads\<close> accepts.
\<close>

datatype pyfloat = FloatVal real | NaN | PosInf | NegInf

datatype json =
    JNull
  | JBool bool
  | JInt int
  | JFloat pyfloat
  | JStr string
  | JArr "json list"
  | JObj "(string \<times> json) list"

datatype key = K string | I int

definition index_of :: "nat \<Rightarrow> int \<Rightarrow> nat option" where
  \<comment> \<open>the position an integer index denotes in a sequence of length \<open>n\<close>; \<open>None\<close> is IndexError\<close>
  "index_of n i =
     (let j = (if i < 0 then int n + i else i)
      in if 0 \<le> j \<and> j < int n then Some (nat j) else None)"

fun subscript :: "json \<Rightarrow> key \<Rightarrow> json option" where
  \<comment> \<open>\<open>v[k]\<close>; \<open>None\<close> stands for the KeyError, IndexError or TypeError Python raises\<close>
  "subscript (JObj items) (K k) = map_of items k"
| "subscript (JArr xs) (I i) = map_option (\<lambda>j. xs ! j) (index_of (length xs) i)"
| "subscript (JStr t) (I i) = map_option (\<lambda>j. JStr [t ! j]) (index_of (length t) i)"
| "subscript _ _ = None"

fun subscripts :: "json \<Rightarrow> key list \<Rightarrow> json option" where
  \<comment> \<open>\<open>v[k1][k2]...\<close>\<close>
  "subscripts v [] = Some v"
| "subscripts v (k # ks) = (case subscript v k of None \<Rightarrow> None | Some v' \<Rightarrow> subscripts v' ks)"

fun py_iter :: "json \<Rightarrow> json list option" where
  \<comment> \<open>the items \<open>for x in v\<close> visits; \<open>None\<close> is the TypeError of a value that is not iterable\<close>
  "py_iter (JArr xs) = Some xs"
| "py_iter (JStr t) = Some (map (\<lambda>c. JStr [c]) t)"
| "py_iter (JObj items) = Some (map (\<lambda>(k, _). JStr k) items)"
| "py_iter _ = None"

fun truthy :: "json \<Rightarrow> bool" where
  "truthy JNull = False"
| "truthy (JBool b) = b"
| "truthy (JInt i) = (i \<noteq> 0)"
| "truthy (JFloat f) = (f \<noteq> FloatVal 0)"
| "truthy (JStr t) = (t \<noteq> [])"
| "truthy (JArr xs) = (xs \<noteq> [])"
| "truthy (JObj items) = (items \<noteq> [])"

section \<open>Providers, state and the record of calls\<close>

text \<open>
  The generation service and the mapping service are outside the program. They are the
  fields of an environment, as functions on a state of the outside world \<open>'w\<close> that each call
  may change. \<open>json.loads\<close> and Python's formatting of a value that is not a string are library
  functions and are fields of the environment too. Every call to a provider is appended,
  with its outcome, to the list \<open>events\<close>, so that what a function called can be stated.
  Printing is not modelled.
\<close>

datatype gen_outcome =
    GenRaises  \<comment> \<open>\<open>model.generate_content(prompt)\<close> raises\<close>
  | GenNoText  \<comment> \<open>it returns, and \<open>response.candidates[0].content.parts[0].text\<close> raises\<close>
  | GenText string

datatype http_outcome =
    HttpRaises   \<comment> \<open>\<open>requests.get(url, params=params)\<close> raises\<close>
  | HttpNotJson  \<comment> \<open>it returns, and \<open>response.json()\<close> raises\<close>
  | HttpJson json

datatype event =
    Generated string gen_outcome
  | Requested string "(string \<times> json) list" http_outcome

record 'w env =
  generate_content :: "string \<Rightarrow> 'w \<Rightarrow> gen_outcome \<times> 'w"
  requests_get :: "string \<Rightarrow> (string \<times> json) list \<Rightarrow> 'w \<Rightarrow> http_outcome \<times> 'w"
  json_loads :: "string \<Rightarrow> json option"
  py_str :: "json \<Rightarrow> string"
  GOOGLE_MAPS_API_KEY :: json

record 'w state =
  world :: 'w
  events :: "event list"

datatype py_exception = UnboundLocalError | AttributeError | TextError | TypeError

definition call_generate :: "'w env \<Rightarrow> string \<Rightarrow> 'w state \<Rightarrow> gen_outcome \<times> 'w state" where
  "call_generate env prompt s =
     (case generate_content env prompt (world s) of
        (out, w) \<Rightarrow> (out, \<lparr>world = w, events = events s @ [Generated prompt out]\<rparr>))"

definition call_get ::
  "'w env \<Rightarrow> string \<Rightarrow> (string \<times> json) list \<Rightarrow> 'w state \<Rightarrow> http_outcome \<times> 'w state" where
  "call_get env url params s =
     (case requests_get env url params (world s) of
        (out, w) \<Rightarrow> (out, \<lparr>world = w, events = events s @ [Requested url params out]\<rparr>))"

definition format_value :: "'w env \<Rightarrow> json \<Rightarrow> string" where
  \<comment> \<open>\<open>{v}\<close> in an f-string\<close>
  "format_value env v = (case v of JStr t \<Rightarrow> t | _ \<Rightarrow> py_str env v)"

definition geocode_url :: string where
  "geocode_url = ''https://maps.googleapis.com/maps/api/geocode/json''"

definition directions_url :: string where
  "directions_url = ''https://maps.googleapis.com/maps/api/directions/json''"

section \<open>The text generation client\<close>

definition name_prompt :: "'w env \<Rightarrow> string \<Rightarrow> string \<Rightarrow> pyfloat \<Rightarrow> pyfloat \<Rightarrow> string" where
  "name_prompt env distance theme latitude longitude = concat
     [''\<newline>'',
      ''    You are a trail recommendation expert.\<newline>'',
      ''    User's starting location is at latitude: '',
      format_value env (JFloat latitude),
      '', longitude: '',
      format_value env (JFloat longitude),
      ''.\<newline>'',
      ''    Desired conditions are:\<newline>'',
      ''    - Distance: '',
      distance,
      '' (this is the total walking distance)\<newline>'',
      ''    - Theme: '',
      theme,
      '' (this should strongly influence the type of trail and points of interest)\<newline>'',
      ''\<newline>'',
      ''    Please respond with ONLY the trail name in text format.\<newline>'',
      ''    The name should reflect both the distance and theme.\<newline>'',
      ''    Example: \"2km Nature Trail at Olympic Park\" or \"3km Historical Palace Route\"\<newline>'',
      ''    '']"

definition get_trail_name_from_gemini ::
  "'w env \<Rightarrow> string \<Rightarrow> string \<Rightarrow> pyfloat \<Rightarrow> pyfloat \<Rightarrow> 'w state \<Rightarrow> string \<times> 'w state" where
  "get_trail_name_from_gemini env distance theme latitude longitude s =
     (case call_generate env (name_prompt env distance theme latitude longitude) s of
        (out, s') \<Rightarrow>
          (case out of
             GenText text \<Rightarrow> (strip text, s')
           | _ \<Rightarrow> (''Recommendation failed'', s')))"

definition detail_prompt :: "string \<Rightarrow> string" where
  "detail_prompt trail_name = concat
     [''\<newline>'',
      ''    Please provide information about the trail \"'',
      trail_name,
      ''\" in the following JSON format. Do not include any other text or markdown formatting.\<newline>'',
      ''    {\<newline>'',
      ''      \"trail_name\": \"'',
      trail_name,
      ''\",\<newline>'',
      ''      \"main_features\": \"Describe the natural or atmospheric characteristics of this trail\",\<newline>'',
      ''      \"estimated_time\": \"Estimated walking time (e.g., about 45 minutes)\",\<newline>'',
      ''      \"route_guide\": \"Detailed guide from start to finish\"\<newline>'',
      ''    }\<newline>'',
      ''    '']"

definition get_trail_detail_from_gemini :: "'w env \<Rightarrow> string \<Rightarrow> 'w state \<Rightarrow> json \<times> 'w state" where
  "get_trail_detail_from_gemini env trail_name s =
     (case call_generate env (detail_prompt trail_name) s of
        (out, s') \<Rightarrow>
          (case out of
             GenText raw \<Rightarrow>
               (case json_loads env (clean_json_response raw) of
                  Some v \<Rightarrow> (v, s')
                | None \<Rightarrow> (JObj [], s'))
           | _ \<Rightarrow> (JObj [], s')))"

definition waypoints_prompt :: "string \<Rightarrow> string \<Rightarrow> string" where
  "waypoints_prompt trail_name start_location = concat
     [''\<newline>'',
      ''    Please provide the representative waypoints for the trail \"'',
      trail_name,
      ''\" in the following JSON format. Do not include any other text or markdown formatting.\<newline>'',
      ''    \<newline>'',
      ''    Requirements:\<newline>'',
      ''    1. The trail MUST start and end at: '',
      start_location,
      ''\<newline>'',
      ''    2. Include 8-10 intermediate points to create a detailed trail route\<newline>'',
      ''    3. The total walking distance should match the distance mentioned in the trail name\<newline>'',
      ''    4. The points of interest should strongly reflect the theme mentioned in the trail name\<newline>'',
      ''    5. Use English place names that can be found on Google Maps\<newline>'',
      ''    6. Always include \"Seoul, South Korea\" after each location name\<newline>'',
      ''    7. Use specific, well-known landmarks or attractions\<newline>'',
      ''    8. Make sure the points form a logical walking route\<newline>'',
      ''    9. The first and last points should be the exact starting location\<newline>'',
      ''    \<newline>'',
      ''    Respond with ONLY the JSON object, no other text:\<newline>'',
      ''    {\<newline>'',
      ''      \"waypoints\": [\<newline>'',
      ''        \"Olympic Park Peace Gate, Seoul, South Korea\",\<newline>'',
      ''        \"Olympic Park Rose Garden, Seoul, South Korea\",\<newline>'',
      ''        \"Olympic Park Wildflower Garden, Seoul, South Korea\",\<newline>'',
      ''        \"Olympic Park Lotus Pond, Seoul, South Korea\",\<newline>'',
      ''        \"Olympic Park Ecological Forest, Seoul, South Korea\",\<newline>'',
      ''        \"Olympic Park Bird Watching Area, Seoul, South Korea\",\<newline>'',
      ''        \"Olympic Park Butterfly Garden, Seoul, South Korea\",\<newline>'',
      ''        \"Olympic Park Wildflower Garden, Seoul, South Korea\",\<newline>'',
      ''        \"Olympic Park Rose Garden, Seoul, South Korea\",\<newline>'',
      ''        \"Olympic Park Peace Gate, Seoul, South Korea\"\<newline>'',
      ''      ]\<newline>'',
      ''    }\<newline>'',
      ''    '']"

definition reverse_geocoded :: "http_outcome \<Rightarrow> json" where
  \<comment> \<open>the first \<open>try\<close> block of \<open>get_trail_waypoints_from_gemini\<close>: the value of
     \<open>start_location\<close> after it\<close>
  "reverse_geocoded out =
     (case out of
        HttpJson data \<Rightarrow>
          (case subscript data (K ''status'') of
             None \<Rightarrow> JStr ''Starting Point''
           | Some status \<Rightarrow>
               if status = JStr ''OK''
               then (case subscripts data [K ''results'', I 0, K ''formatted_address''] of
                       None \<Rightarrow> JStr ''Starting Point''
                     | Some address \<Rightarrow> address)
               else JStr ''Starting Point'')
      | _ \<Rightarrow> JStr ''Starting Point'')"

definition get_trail_waypoints_from_gemini ::
  "'w env \<Rightarrow> string \<Rightarrow> pyfloat \<Rightarrow> pyfloat \<Rightarrow> 'w state \<Rightarrow> (py_exception + json) \<times> 'w state" where
  \<comment> \<open>The handler of the second \<open>try\<close> block prints
     \<open>response.candidates[0].content.parts[0].text\<close>. When \<open>generate_content\<close> raised,
     \<open>response\<close> is still the \<open>requests\<close> response of the reverse geocoding (AttributeError), or
     was never assigned (UnboundLocalError); when reading the text raised, it raises again.
     These exceptions leave the function.\<close>
  "get_trail_waypoints_from_gemini env trail_name latitude longitude s =
     (case call_get env geocode_url
             [(''latlng'', JStr (format_value env (JFloat latitude) @ '','' @
                                 format_value env (JFloat longitude))),
              (''key'', GOOGLE_MAPS_API_KEY env),
              (''region'', JStr ''kr'')] s of
        (located, s1) \<Rightarrow>
          (case call_generate env
                  (waypoints_prompt trail_name (format_value env (reverse_geocoded located))) s1 of
             (out, s2) \<Rightarrow>
               (case out of
                  GenRaises \<Rightarrow>
                    (Inl (if located = HttpRaises then UnboundLocalError else AttributeError), s2)
                | GenNoText \<Rightarrow> (Inl TextError, s2)
                | GenText raw \<Rightarrow>
                    (case json_loads env (clean_json_response raw) of
                       Some (JObj items) \<Rightarrow>
                         (case map_of items ''waypoints'' of
                            Some waypoints \<Rightarrow> (Inr waypoints, s2)
                          | None \<Rightarrow> (Inr (JArr []), s2))
                     | _ \<Rightarrow> (Inr (JArr []), s2)))))"

section \<open>The mapping client and the route resolver\<close>

definition lng_lat :: "json \<Rightarrow> json list option" where
  \<comment> \<open>\<open>[location["lng"], location["lat"]]\<close>\<close>
  "lng_lat location =
     (case subscript location (K ''lng'') of
        None \<Rightarrow> None
      | Some lng \<Rightarrow>
          (case subscript location (K ''lat'') of
             None \<Rightarrow> None
           | Some lat \<Rightarrow> Some [lng, lat]))"

definition point :: "json \<Rightarrow> string \<Rightarrow> json list option" where
  \<comment> \<open>\<open>[step[k]["lng"], step[k]["lat"]]\<close>\<close>
  "point step k = (case subscript step (K k) of None \<Rightarrow> None | Some location \<Rightarrow> lng_lat location)"

definition succeeded :: "http_outcome \<Rightarrow> bool" where
  \<comment> \<open>the request returned JSON and \<open>data["status"] == "OK"\<close>\<close>
  "succeeded out =
     (case out of
        HttpJson data \<Rightarrow> subscript data (K ''status'') = Some (JStr ''OK'')
      | _ \<Rightarrow> False)"

definition verify_params :: "'w env \<Rightarrow> (string \<times> json) list" where
  "verify_params env =
     [(''address'', JStr ''Seoul Station, Seoul, South Korea''),
      (''key'', GOOGLE_MAPS_API_KEY env)]"

definition directions_params :: "'w env \<Rightarrow> string list \<Rightarrow> (string \<times> json) list" where
  "directions_params env waypoints =
     (let origin = hd waypoints;
          destination = last waypoints;
          middle = butlast (tl waypoints)
      in [(''origin'', JStr origin),
          (''destination'', JStr destination),
          (''mode'', JStr ''walking''),
          (''key'', GOOGLE_MAPS_API_KEY env),
          (''waypoints'', JStr (if middle \<noteq> [] then join ''|'' middle else [])),
          (''region'', JStr ''kr'')])"

fun steps_loop :: "json list \<Rightarrow> json list list \<Rightarrow> json list list option" where
  \<comment> \<open>\<open>for step in leg["steps"]\<close>\<close>
  "steps_loop [] coordinates = Some coordinates"
| "steps_loop (step # rest) coordinates =
     (case point step ''start_location'' of
        None \<Rightarrow> None
      | Some c \<Rightarrow> steps_loop rest (coordinates @ [c]))"

fun legs_loop :: "json list \<Rightarrow> json list list \<Rightarrow> json list list option" where
  \<comment> \<open>\<open>for leg in steps\<close>\<close>
  "legs_loop [] coordinates = Some coordinates"
| "legs_loop (leg # rest) coordinates =
     (case subscript leg (K ''steps'') of
        None \<Rightarrow> None
      | Some steps \<Rightarrow>
          (case py_iter steps of
             None \<Rightarrow> None
           | Some items \<Rightarrow>
               (case steps_loop items coordinates of
                  None \<Rightarrow> None
                | Some coordinates' \<Rightarrow>
                    (case subscript steps (I (- 1)) of
                       None \<Rightarrow> None
                     | Some final \<Rightarrow>
                         (case point final ''end_location'' of
                            None \<Rightarrow> None
                          | Some c \<Rightarrow> legs_loop rest (coordinates' @ [c]))))))"

definition route_coordinates :: "http_outcome \<Rightarrow> json list list" where
  \<comment> \<open>the second \<open>try\<close> block of \<open>get_directions_coordinates_from_waypoints\<close>, after the
     request: any exception gives \<open>[]\<close>\<close>
  "route_coordinates out =
     (case out of
        HttpJson data \<Rightarrow>
          (case subscript data (K ''status'') of
             None \<Rightarrow> []
           | Some status \<Rightarrow>
               if status = JStr ''OK''
               then (case subscripts data [K ''routes'', I 0, K ''legs''] of
                       None \<Rightarrow> []
                     | Some steps \<Rightarrow>
                         (case py_iter steps of
                            None \<Rightarrow> []
                          | Some legs \<Rightarrow>
                              (case legs_loop legs [] of
                                 None \<Rightarrow> []
                               | Some coordinates \<Rightarrow> coordinates)))
               else [])
      | _ \<Rightarrow> [])"

definition get_directions_coordinates_from_waypoints ::
  "'w env \<Rightarrow> string list \<Rightarrow> 'w state \<Rightarrow> json list list \<times> 'w state" where
  \<comment> \<open>\<open>waypoints\<close> is a list of labels; nothing in the repository calls this function\<close>
  "get_directions_coordinates_from_waypoints env waypoints s =
     (if length waypoints < 2 then ([], s)
      else
        (case call_get env geocode_url (verify_params env) s of
           (test, s1) \<Rightarrow>
             if \<not> succeeded test then ([], s1)
             else
               (case call_get env directions_url (directions_params env waypoints) s1 of
                  (out, s2) \<Rightarrow> (route_coordinates out, s2))))"

definition geocoded :: "http_outcome \<Rightarrow> json list option" where
  \<comment> \<open>the \<open>try\<close> block of \<open>get_coordinates_for_waypoints\<close>, after the request: the pair it
     appends, or \<open>None\<close> where it returns \<open>[]\<close>\<close>
  "geocoded out =
     (case out of
        HttpJson data \<Rightarrow>
          (case subscript data (K ''status'') of
             None \<Rightarrow> None
           | Some status \<Rightarrow>
               if status = JStr ''OK''
               then (case subscripts data [K ''results'', I 0, K ''geometry'', K ''location''] of
                       None \<Rightarrow> None
                     | Some location \<Rightarrow> lng_lat location)
               else None)
      | _ \<Rightarrow> None)"

definition geocode_params :: "'w env \<Rightarrow> json \<Rightarrow> (string \<times> json) list" where
  "geocode_params env waypoint =
     [(''address'', waypoint), (''key'', GOOGLE_MAPS_API_KEY env), (''region'', JStr ''kr'')]"

fun geocode_loop ::
  "'w env \<Rightarrow> json list \<Rightarrow> json list list \<Rightarrow> 'w state \<Rightarrow> json list list \<times> 'w state" where
  \<comment> \<open>\<open>for waypoint in waypoints\<close>\<close>
  "geocode_loop env [] coordinates s = (coordinates, s)"
| "geocode_loop env (waypoint # rest) coordinates s =
     (case call_get env geocode_url (geocode_params env waypoint) s of
        (out, s') \<Rightarrow>
          (case geocoded out of
             None \<Rightarrow> ([], s')
           | Some c \<Rightarrow> geocode_loop env rest (coordinates @ [c]) s'))"

definition get_coordinates_for_waypoints ::
  "'w env \<Rightarrow> json \<Rightarrow> 'w state \<Rightarrow> (py_exception + json list list) \<times> 'w state" where
  \<comment> \<open>\<open>waypoints\<close> is whatever the waypoint stage parsed; the \<open>for\<close> statement is outside the
     \<open>try\<close> block, so a value that is true and not iterable raises TypeError\<close>
  "get_coordinates_for_waypoints env waypoints s =
     (if \<not> truthy waypoints then (Inr [], s)
      else
        (case py_iter waypoints of
           None \<Rightarrow> (Inl TypeError, s)
         | Some items \<Rightarrow>
             (case geocode_loop env items [] s of
                (coordinates, s') \<Rightarrow> (Inr coordinates, s'))))"

section \<open>The pipeline\<close>

record TrailRequest =
  distance :: string
  theme :: string
  latitude :: pyfloat
  longitude :: pyfloat

datatype response =
    ErrorResponse (error: string)  \<comment> \<open>\<open>{"error": ...}\<close>\<close>
  | TrailResponse (route_name: string) (coordinates: "json list list")
      \<comment> \<open>\<open>{"route_name": ..., "coordinates": ...}\<close>\<close>

definition recommend_trail ::
  "'w env \<Rightarrow> TrailRequest \<Rightarrow> 'w state \<Rightarrow> (py_exception + response) \<times> 'w state" where
  "recommend_trail env req s =
     (case get_trail_name_from_gemini env (distance req) (theme req) (latitude req) (longitude req) s of
        (trail_name, s1) \<Rightarrow>
          if trail_name = ''Recommendation failed''
          then (Inr (ErrorResponse ''Gemini recommendation failed''), s1)
          else
            (case get_trail_detail_from_gemini env trail_name s1 of
               (detail, s2) \<Rightarrow>
                 (case get_trail_waypoints_from_gemini env trail_name (latitude req) (longitude req) s2 of
                    (waypoints, s3) \<Rightarrow>
                      (case waypoints of
                         Inl e \<Rightarrow> (Inl e, s3)
                       | Inr waypoints \<Rightarrow>
                           (case get_coordinates_for_waypoints env waypoints s3 of
                              (coords, s4) \<Rightarrow>
                                (case coords of
                                   Inl e \<Rightarrow> (Inl e, s4)
                                 | Inr coords \<Rightarrow> (Inr (TrailResponse trail_name coords), s4)))))))"

section \<open>Stubbed providers\<close>

text \<open>
  Providers for concrete runs. The generation service answers its calls from a script,
  one outcome per call, and raises once the script is used up; the world is the number of
  generation calls made so far. The mapping service is a function of the request.
\<close>

definition stub_env ::
  "gen_outcome list \<Rightarrow> (string \<Rightarrow> (string \<times> json) list \<Rightarrow> http_outcome) \<Rightarrow>
   (string \<Rightarrow> json option) \<Rightarrow> nat env" where
  "stub_env script http loads =
     \<lparr>generate_content =
        (\<lambda>prompt n. (if n < length script then script ! n else GenRaises, Suc n)),
      requests_get = (\<lambda>url params n. (http url params, n)),
      json_loads = loads,
      py_str = (\<lambda>v. ''<value>''),
      GOOGLE_MAPS_API_KEY = JStr ''test-key''\<rparr>"

definition start :: "nat state" where
  "start = \<lparr>world = 0, events = []\<rparr>"

definition seoul_request :: TrailRequest where
  "seoul_request =
     \<lparr>distance = ''2km'', theme = ''nature'',
      latitude = FloatVal 37.5665, longitude = FloatVal 126.978\<rparr>"

definition location_json :: "real \<Rightarrow> real \<Rightarrow> json" where
  "location_json lat lng = JObj [(''lat'', JFloat (FloatVal lat)), (''lng'', JFloat (FloatVal lng))]"

definition geocode_hit :: "string \<Rightarrow> real \<Rightarrow> real \<Rightarrow> json" where
  "geocode_hit address lat lng =
     JObj [(''results'',
            JArr [JObj [(''formatted_address'', JStr address),
                        (''geometry'', JObj [(''location'', location_json lat lng)])]]),
           (''status'', JStr ''OK'')]"

definition geocode_miss :: "string \<Rightarrow> json" where
  "geocode_miss status = JObj [(''results'', JArr []), (''status'', JStr status)]"

definition step_json :: "real \<times> real \<Rightarrow> real \<times> real \<Rightarrow> json" where
  "step_json a b =
     JObj [(''start_location'', location_json (fst a) (snd a)),
           (''end_location'', location_json (fst b) (snd b))]"

definition first_leg :: json where
  "first_leg = JObj [(''steps'', JArr [step_json (37.1, 127.1) (37.2, 127.2),
                                      step_json (37.2, 127.2) (37.3, 127.3)])]"

definition second_leg :: json where
  "second_leg = JObj [(''steps'', JArr [step_json (37.3, 127.3) (37.4, 127.4),
                                       step_json (37.4, 127.4) (37.5, 127.5)])]"

definition two_legs :: json where
  \<comment> \<open>a directions response with 2 legs of 2 steps each\<close>
  "two_legs =
     JObj [(''routes'', JArr [JObj [(''legs'', JArr [first_leg, second_leg])]]),
           (''status'', JStr ''OK'')]"

definition maps_up :: "string \<Rightarrow> (string \<times> json) list \<Rightarrow> http_outcome" where
  \<comment> \<open>every geocoding request finds Seoul City Hall, every directions request \<open>two_legs\<close>\<close>
  "maps_up url params =
     (if url = directions_url then HttpJson two_legs
      else HttpJson (geocode_hit ''Seoul City Hall'' 37.5665 126.978))"

definition maps_denied :: "string \<Rightarrow> (string \<times> json) list \<Rightarrow> http_outcome" where
  \<comment> \<open>the key is refused by the geocoding endpoint\<close>
  "maps_denied url params =
     (if url = directions_url then HttpJson two_legs
      else HttpJson (geocode_miss ''REQUEST_DENIED''))"

definition maps_missing :: "string \<Rightarrow> string \<Rightarrow> (string \<times> json) list \<Rightarrow> http_outcome" where
  \<comment> \<open>geocoding fails for one label and succeeds for every other\<close>
  "maps_missing label url params =
     (if url = directions_url then HttpJson two_legs
      else if map_of params ''address'' = Some (JStr label) then HttpJson (geocode_miss ''ZERO_RESULTS'')
      else HttpJson (geocode_hit ''Seoul City Hall'' 37.5665 126.978))"

definition maps_seoul :: "string \<Rightarrow> (string \<times> json) list \<Rightarrow> http_outcome" where
  \<comment> \<open>three places of Seoul are found where they are, every other geocoding request finds
     Seoul City Hall, every directions request \<open>two_legs\<close>\<close>
  "maps_seoul url params =
     (if url = directions_url then HttpJson two_legs
      else if map_of params ''address'' = Some (JStr ''Gate, Seoul, South Korea'')
        then HttpJson (geocode_hit ''Gate'' 37.51 127.11)
      else if map_of params ''address'' = Some (JStr ''Pond, Seoul, South Korea'')
        then HttpJson (geocode_hit ''Pond'' 37.52 127.12)
      else if map_of params ''address'' = Some (JStr ''Hill, Seoul, South Korea'')
        then HttpJson (geocode_hit ''Hill'' 37.53 127.13)
      else HttpJson (geocode_hit ''Seoul City Hall'' 37.5665 126.978))"

definition three_labels :: "json list" where
  "three_labels = [JStr ''Gate, Seoul, South Korea'', JStr ''Pond, Seoul, South Korea'',
                   JStr ''Hill, Seoul, South Korea'']"

definition waypoints_payload :: string where
  \<comment> \<open>the text the generation service answers the waypoint prompt with\<close>
  "waypoints_payload =
     ''{\"waypoints\": [\"Gate, Seoul, South Korea\", \"Pond, Seoul, South Korea\", \"Hill, Seoul, South Korea\"]}''"

definition stub_loads :: "string \<Rightarrow> json option" where
  \<comment> \<open>\<open>json.loads\<close> on the two JSON texts of the script below, each with the value
     \<open>json.loads\<close> returns for it: a dict with a list of three strings, and a dict with the
     integer 1. The stub knows no other text and answers it as a text that does not
     parse; no run of this theory hands it one\<close>
  "stub_loads text =
     (if text = waypoints_payload then Some (JObj [(''waypoints'', JArr three_labels)])
      else if text = ''{\"trail_name\": 1}'' then Some (JObj [(''trail_name'', JInt 1)])
      else None)"

definition script :: "string \<Rightarrow> gen_outcome list" where
  \<comment> \<open>the three generation calls of a run: the name, the detail, the waypoints\<close>
  "script name =
     [GenText name, GenText ''```json\<newline>{\"trail_name\": 1}\<newline>```'', GenText waypoints_payload]"

section \<open>Reading the record of calls\<close>

definition requested_url :: "event \<Rightarrow> string" where
  \<comment> \<open>the URL of a request to the mapping service; empty for a generation call\<close>
  "requested_url e = (case e of Requested url params out \<Rightarrow> url | Generated prompt out \<Rightarrow> [])"

definition request_failed :: "event \<Rightarrow> bool" where
  \<comment> \<open>a request that raised, returned no JSON, or returned a status other than \<open>OK\<close>\<close>
  "request_failed e =
     (case e of Requested url params out \<Rightarrow> \<not> succeeded out | Generated prompt out \<Rightarrow> False)"

definition geocoded_of :: "event \<Rightarrow> json list option" where
  \<comment> \<open>the coordinate \<open>get_coordinates_for_waypoints\<close> reads from the outcome of a request\<close>
  "geocoded_of e =
     (case e of Requested url params out \<Rightarrow> geocoded out | Generated prompt out \<Rightarrow> None)"

definition added :: "'w state \<Rightarrow> 'w state \<Rightarrow> event list" where
  \<comment> \<open>the events of \<open>s'\<close> that came after those of \<open>s\<close>\<close>
  "added s s' = drop (length (events s)) (events s')"

definition request_of :: "event \<Rightarrow> string \<times> (string \<times> json) list" where
  \<comment> \<open>the URL and the parameters of a request to the mapping service\<close>
  "request_of e =
     (case e of Requested url params out \<Rightarrow> (url, params) | Generated prompt out \<Rightarrow> ([], []))"

definition reply_of :: "event \<Rightarrow> json" where
  \<comment> \<open>the JSON a request was answered with; \<open>None\<close> of Python when there is none\<close>
  "reply_of e =
     (case e of
        Requested url params out \<Rightarrow> (case out of HttpJson data \<Rightarrow> data | _ \<Rightarrow> JNull)
      | Generated prompt out \<Rightarrow> JNull)"

section \<open>The specification's description of a flattened route\<close>

text \<open>
  The specification describes the result of the route resolver on a directions response:
  for every leg in order, the start coordinate of every step, then the end coordinate of
  the leg's last step once, each coordinate as (longitude, latitude). The definitions of
  this section follow these words and read the response by themselves; the claim about
  the route resolver compares the loops of the program with them.
\<close>

definition steps_of :: "json \<Rightarrow> json list" where
  \<comment> \<open>the steps of a leg, when it has a list of them\<close>
  "steps_of leg = (case subscript leg (K ''steps'') of Some (JArr steps) \<Rightarrow> steps | _ \<Rightarrow> [])"

definition coordinate_of :: "json \<Rightarrow> string \<Rightarrow> json list" where
  \<comment> \<open>the location \<open>k\<close> of a step as (longitude, latitude)\<close>
  "coordinate_of step k =
     (case (subscripts step [K k, K ''lng''], subscripts step [K k, K ''lat'']) of
        (Some lng, Some lat) \<Rightarrow> [lng, lat]
      | _ \<Rightarrow> [])"

definition has_coordinate :: "json \<Rightarrow> string \<Rightarrow> bool" where
  "has_coordinate step k =
     (subscripts step [K k, K ''lng''] \<noteq> None \<and> subscripts step [K k, K ''lat''] \<noteq> None)"

definition well_formed_leg :: "json \<Rightarrow> bool" where
  \<comment> \<open>a leg as the mapping service returns it: at least one step, a start location on
     every step, an end location on the last\<close>
  "well_formed_leg leg =
     (steps_of leg \<noteq> []
      \<and> (\<forall>step \<in> set (steps_of leg). has_coordinate step ''start_location'')
      \<and> has_coordinate (last (steps_of leg)) ''end_location'')"

definition spec_flatten :: "json list \<Rightarrow> json list list" where
  "spec_flatten legs =
     concat (map (\<lambda>leg. map (\<lambda>step. coordinate_of step ''start_location'') (steps_of leg)
                        @ [coordinate_of (last (steps_of leg)) ''end_location'']) legs)"

definition step_count :: "json list \<Rightarrow> nat" where
  \<comment> \<open>the number of steps of a route, over all its legs\<close>
  "step_count legs = length (concat (map steps_of legs))"

section \<open>The specification's description of a geocoded label\<close>

text \<open>
  The specification describes forward geocoding: on success, the first result's
  (longitude, latitude) pair. These definitions read a reply of the mapping service by
  themselves, longitude first; the claim about the pipeline compares what the program
  returns with them.
\<close>

definition spec_location :: "json \<Rightarrow> json list" where
  \<comment> \<open>the location of the first result of a reply, as (longitude, latitude)\<close>
  "spec_location data =
     (case (subscripts data [K ''results'', I 0, K ''geometry'', K ''location'', K ''lng''],
            subscripts data [K ''results'', I 0, K ''geometry'', K ''location'', K ''lat'']) of
        (Some lng, Some lat) \<Rightarrow> [lng, lat]
      | _ \<Rightarrow> [])"

definition located :: "event \<Rightarrow> bool" where
  \<comment> \<open>a request that succeeded and whose first result has a longitude and a latitude\<close>
  "located e =
     (case e of
        Requested url params out \<Rightarrow>
          succeeded out
          \<and> subscripts (reply_of e) [K ''results'', I 0, K ''geometry'', K ''location'', K ''lng'']
                \<noteq> None
          \<and> subscripts (reply_of e) [K ''results'', I 0, K ''geometry'', K ''location'', K ''lat'']
                \<noteq> None
      | Generated prompt out \<Rightarrow> False)"

section \<open>Properties of the response extractor\<close>

lemma startswith_keeps_marker:
  assumes "c \<notin> set p" and "startswith (pre @ c # r) p"
  shows "length p \<le> length pre"
proof (rule ccontr)
  assume "\<not> length p \<le> length pre"
  then obtain k where k: "length p - length pre = Suc k"
    by (metis Suc_diff_Suc not_le_imp_less)
  from k have "take (length p) pre = pre" by simp
  with assms(2) have "p = pre @ take (length p - length pre) (c # r)"
    by (simp add: startswith_def)
  then have "p = pre @ c # take k r" using k by simp
  then have "c \<in> set p" by (metis in_set_conv_decomp)
  with assms(1) show False by simp
qed

lemma lead_fence_keeps_marker:
  assumes "c \<notin> set p" and "length p = n"
  shows "\<exists>pre'. (if startswith (pre @ c # r) p then drop n (pre @ c # r) else pre @ c # r)
            = pre' @ c # r \<and> set pre' \<subseteq> set pre"
proof (cases "startswith (pre @ c # r) p")
  case True
  from startswith_keeps_marker[OF assms(1) True] assms(2)
  have "drop n (pre @ c # r) = drop n pre @ c # r" by simp
  moreover have "set (drop n pre) \<subseteq> set pre" by (rule set_drop_subset)
  ultimately show ?thesis using True by auto
next
  case False
  then show ?thesis by auto
qed

lemma endswith_rev: "endswith text p = startswith (rev text) (rev p)"
  by (auto simp: endswith_def startswith_def take_rev rev_drop[symmetric] dest: arg_cong[where f=length])

lemma endswith_keeps_marker:
  assumes "c \<notin> set p" and "endswith (l @ c # post) p"
  shows "length p \<le> length post"
proof -
  have "startswith (rev post @ c # rev l) (rev p)"
    using assms(2) by (simp add: endswith_rev)
  moreover have "c \<notin> set (rev p)" using assms(1) by simp
  ultimately have "length (rev p) \<le> length (rev post)" by (rule startswith_keeps_marker[rotated])
  then show ?thesis by simp
qed

lemma trail_fence_keeps_marker:
  assumes "c \<notin> set p" and "length p = n" and "t = l @ c # post"
  shows "\<exists>post'. (if endswith t p then take (length t - n) t else t) = l @ c # post'
            \<and> set post' \<subseteq> set post"
proof (cases "endswith t p")
  case True
  then have "length p \<le> length post"
    using endswith_keeps_marker[OF assms(1), of l post] assms(3) by simp
  then have "take (length t - n) t = l @ c # take (length post - n) post"
    using assms(2,3) by (simp add: Suc_diff_le)
  moreover have "set (take (length post - n) post) \<subseteq> set post" by (rule set_take_subset)
  ultimately show ?thesis using True by auto
next
  case False
  then show ?thesis using assms(3) by auto
qed

lemma takeWhile_until: "c \<notin> set pre \<Longrightarrow> takeWhile (\<lambda>x. x \<noteq> c) (pre @ c # r) = pre"
  by (induction pre) auto

lemma py_find_first: "c \<notin> set pre \<Longrightarrow> py_find (pre @ c # r) c = int (length pre)"
  by (simp add: py_find_def takeWhile_until)

lemma py_rfind_last: "c \<notin> set post \<Longrightarrow> py_rfind (l @ c # post) c = int (length l)"
  using takeWhile_until[of c "rev post" "rev l"] by (simp add: py_rfind_def)

lemma strip_braced: "strip (CHR ''{'' # mid @ [CHR ''}'']) = CHR ''{'' # mid @ [CHR ''}'']"
  by (simp add: strip_def isspace_def)

lemma py_slice_nat: "py_slice xs (int a) (int b) = drop a (take b xs)"
  by (simp add: py_slice_def slice_index_def min_def)

lemma clean_braced:
  assumes "CHR ''{'' \<notin> set pre" and "CHR ''}'' \<notin> set post"
  shows "clean_json_response (pre @ CHR ''{'' # mid @ CHR ''}'' # post) = CHR ''{'' # mid @ [CHR ''}'']"
proof -
  let ?r = "mid @ CHR ''}'' # post"
  obtain pre1 where t1: "(if startswith (pre @ CHR ''{'' # ?r) ''```json'' then drop 7 (pre @ CHR ''{'' # ?r) else pre @ CHR ''{'' # ?r) = pre1 @ CHR ''{'' # ?r"
    and s1: "set pre1 \<subseteq> set pre"
    using lead_fence_keeps_marker[of "CHR ''{''" "''```json''" 7 pre ?r] by auto
  obtain pre2 where t2: "(if startswith (pre1 @ CHR ''{'' # ?r) ''```'' then drop 3 (pre1 @ CHR ''{'' # ?r) else pre1 @ CHR ''{'' # ?r) = pre2 @ CHR ''{'' # ?r"
    and s2: "set pre2 \<subseteq> set pre1"
    using lead_fence_keeps_marker[of "CHR ''{''" "''```''" 3 pre1 ?r] by auto
  let ?T = "\<lambda>q. pre2 @ CHR ''{'' # mid @ CHR ''}'' # q"
  obtain post3 where t3: "(if endswith (?T post) ''```'' then take (length (?T post) - 3) (?T post) else ?T post) = ?T post3"
    and s3: "set post3 \<subseteq> set post"
    using trail_fence_keeps_marker[of "CHR ''}''" "''```''" 3 "?T post" "pre2 @ CHR ''{'' # mid" post] by auto
  have n2: "CHR ''{'' \<notin> set pre2" using assms(1) s1 s2 by auto
  have n3: "CHR ''}'' \<notin> set post3" using assms(2) s3 by auto
  have st: "py_find (?T post3) (CHR ''{'') = int (length pre2)"
    using n2 by (rule py_find_first)
  have sp: "py_rfind (?T post3) (CHR ''}'') + 1 = int (length pre2 + length mid + 2)"
    using py_rfind_last[OF n3, of "pre2 @ CHR ''{'' # mid"] by simp
  have c: "int (length pre2) \<noteq> - 1 \<and> int (length pre2 + length mid + 2) \<noteq> 0" by simp
  have sl: "py_slice (?T post3) (int (length pre2)) (int (length pre2 + length mid + 2)) = CHR ''{'' # mid @ [CHR ''}'']"
    by (simp only: py_slice_nat) simp
  show ?thesis
    by (simp only: clean_json_response_def Let_def t1 t2 t3 st sp sl) (simp add: strip_braced)
qed

lemma first_last_brace:
  "\<exists>pre0 mid0 post0. pre @ CHR ''{'' # mid @ CHR ''}'' # post = pre0 @ CHR ''{'' # mid0 @ CHR ''}'' # post0
      \<and> CHR ''{'' \<notin> set pre0 \<and> CHR ''}'' \<notin> set post0"
proof -
  let ?x = "pre @ CHR ''{'' # mid @ CHR ''}'' # post"
  have "CHR ''{'' \<in> set ?x" by simp
  then obtain pre0 rest where x: "?x = pre0 @ CHR ''{'' # rest" and n0: "CHR ''{'' \<notin> set pre0"
    by (meson split_list_first)
  have "length pre0 \<le> length pre"
  proof (rule ccontr)
    assume "\<not> length pre0 \<le> length pre"
    then have lt: "length pre < length pre0" by simp
    have "?x ! length pre = CHR ''{''" by simp
    moreover have "?x ! length pre = pre0 ! length pre" using lt by (subst x) (simp add: nth_append)
    ultimately have "CHR ''{'' \<in> set pre0" using lt by (metis nth_mem)
    with n0 show False by simp
  qed
  then have "drop (Suc (length pre0)) ((pre @ CHR ''{'' # mid) @ CHR ''}'' # post)
      = drop (Suc (length pre0)) (pre @ CHR ''{'' # mid) @ CHR ''}'' # post"
    by (simp del: append_assoc)
  then have "CHR ''}'' \<in> set (drop (Suc (length pre0)) ?x)" by simp
  moreover have "drop (Suc (length pre0)) ?x = rest" by (subst x) simp
  ultimately have "CHR ''}'' \<in> set rest" by (simp only:)
  then obtain mid0 post0 where r: "rest = mid0 @ CHR ''}'' # post0" and n1: "CHR ''}'' \<notin> set post0"
    by (meson split_list_last)
  show ?thesis using x r n0 n1 by blast
qed


lemma short_or_long:
  obtains "body = []" | a where "body = [a]" | a b where "body = [a, b]"
  | a b c rest where "body = a # b # c # rest"
  by (metis list.exhaust)

lemma endswith_append_same: "endswith (b @ p) p"
  by (simp add: endswith_def)

lemma fences_removed:
  assumes "\<not> startswith body ''```''" and "\<not> endswith body ''```''"
    and "lead \<in> {[], ''```'', ''```json''}" and "trail \<in> {[], ''```''}"
    and "lead = ''```'' \<longrightarrow> \<not> startswith body ''json''"
  shows "(let text0 = lead @ body @ trail;
              text1 = (if startswith text0 ''```json'' then drop 7 text0 else text0);
              text2 = (if startswith text1 ''```'' then drop 3 text1 else text1)
          in (if endswith text2 ''```'' then take (length text2 - 3) text2 else text2)) = body"
proof -
  from assms(3) consider "lead = []" | "lead = ''```''" | "lead = ''```json''" by auto
  note leads = this
  from assms(4) consider "trail = []" | "trail = ''```''" by auto
  note trails = this
  show ?thesis
  proof (cases body rule: short_or_long)
    case 1
    show ?thesis
      by (cases rule: leads; cases rule: trails) (simp_all add: 1 startswith_def endswith_def Let_def)
  next
    case (2 a)
    show ?thesis using assms(5)
      by (cases rule: leads; cases rule: trails) (auto simp add: 2 startswith_def endswith_def Let_def)
  next
    case (3 a b)
    show ?thesis using assms(5)
      by (cases rule: leads; cases rule: trails) (auto simp add: 3 startswith_def endswith_def Let_def)
  next
    case (4 a b c rest)
    have e: "endswith (body @ ''```'') ''```''" by (rule endswith_append_same)
    have t: "take (length (body @ ''```'') - 3) (body @ ''```'') = body" by simp
    have s: "\<not> startswith (body @ trail) ''```''" using assms(1) 4 by (simp add: startswith_def)
    have s7: "\<not> startswith (body @ trail) ''```json''" using assms(1) 4 by (auto simp add: startswith_def)
    have sj: "lead = ''```'' \<Longrightarrow> \<not> startswith (''```'' @ body @ trail) ''```json''"
      using assms(4,5) 4 by (cases rest) (auto simp add: startswith_def)
    have t2: "(if startswith (if startswith (lead @ body @ trail) ''```json'' then drop 7 (lead @ body @ trail) else lead @ body @ trail) ''```''
          then drop 3 (if startswith (lead @ body @ trail) ''```json'' then drop 7 (lead @ body @ trail) else lead @ body @ trail)
          else (if startswith (lead @ body @ trail) ''```json'' then drop 7 (lead @ body @ trail) else lead @ body @ trail)) = body @ trail"
    proof (cases rule: leads)
      case 1
      then show ?thesis using s s7 by simp
    next
      case 2
      then show ?thesis using sj s by simp (simp add: startswith_def)
    next
      case 3
      then show ?thesis using s by simp (simp add: startswith_def)
    qed
    have t3: "(if endswith (body @ trail) ''```'' then take (length (body @ trail) - 3) (body @ trail) else body @ trail) = body"
    proof (cases rule: trails)
      case 1
      then show ?thesis using assms(2) by simp
    next
      case 2
      then show ?thesis using e t by (simp del: length_append)
    qed
    show ?thesis by (simp only: Let_def t2 t3)
  qed
qed


lemma clean_no_pair:
  assumes "CHR ''{'' \<notin> set body \<or> CHR ''}'' \<notin> set body"
    and "\<not> startswith body ''```''" and "\<not> endswith body ''```''"
    and "lead \<in> {[], ''```'', ''```json''}" and "trail \<in> {[], ''```''}"
    and "lead = ''```'' \<longrightarrow> \<not> startswith body ''json''"
  shows "clean_json_response (lead @ body @ trail) = strip body"
proof -
  have "py_find body (CHR ''{'') = - 1 \<or> py_rfind body (CHR ''}'') + 1 = 0"
    using assms(1) by (auto simp: py_find_def py_rfind_def)
  then have keep: "(if py_find body (CHR ''{'') \<noteq> - 1 \<and> py_rfind body (CHR ''}'') + 1 \<noteq> 0
        then py_slice body (py_find body (CHR ''{'')) (py_rfind body (CHR ''}'') + 1) else body) = body"
    by auto
  show ?thesis
    by (simp only: clean_json_response_def Let_def fences_removed[OF assms(2-6), unfolded Let_def] keep)
qed

lemma clean_reversed:
  assumes "CHR ''{'' \<notin> set (a @ CHR ''}'' # b)" and "CHR ''}'' \<notin> set (b @ CHR ''{'' # c)"
  shows "clean_json_response (a @ CHR ''}'' # b @ CHR ''{'' # c) = []"
proof -
  let ?r = "b @ CHR ''{'' # c"
  obtain a1 where t1: "(if startswith (a @ CHR ''}'' # ?r) ''```json'' then drop 7 (a @ CHR ''}'' # ?r) else a @ CHR ''}'' # ?r) = a1 @ CHR ''}'' # ?r"
    and s1: "set a1 \<subseteq> set a"
    using lead_fence_keeps_marker[of "CHR ''}''" "''```json''" 7 a ?r] by auto
  obtain a2 where t2: "(if startswith (a1 @ CHR ''}'' # ?r) ''```'' then drop 3 (a1 @ CHR ''}'' # ?r) else a1 @ CHR ''}'' # ?r) = a2 @ CHR ''}'' # ?r"
    and s2: "set a2 \<subseteq> set a1"
    using lead_fence_keeps_marker[of "CHR ''}''" "''```''" 3 a1 ?r] by auto
  let ?T = "\<lambda>q. a2 @ CHR ''}'' # b @ CHR ''{'' # q"
  obtain c3 where t3: "(if endswith (?T c) ''```'' then take (length (?T c) - 3) (?T c) else ?T c) = ?T c3"
    and s3: "set c3 \<subseteq> set c"
    using trail_fence_keeps_marker[of "CHR ''{''" "''```''" 3 "?T c" "a2 @ CHR ''}'' # b" c] by auto
  have n2: "CHR ''{'' \<notin> set (a2 @ CHR ''}'' # b)" using assms(1) s1 s2 by auto
  have n3: "CHR ''}'' \<notin> set (b @ CHR ''{'' # c3)" using assms(2) s3 by auto
  have st: "py_find (?T c3) (CHR ''{'') = int (length a2 + length b + 1)"
    using py_find_first[OF n2, of c3] by simp
  have sp: "py_rfind (?T c3) (CHR ''}'') + 1 = int (length a2 + 1)"
    using py_rfind_last[OF n3, of a2] by simp
  have sl: "py_slice (?T c3) (int (length a2 + length b + 1)) (int (length a2 + 1)) = []"
    by (simp only: py_slice_nat) simp
  show ?thesis
    by (simp only: clean_json_response_def Let_def t1 t2 t3 st sp sl) (simp add: strip_def)
qed

section \<open>Calls and the events they leave\<close>

lemma call_generate_eq:
  "call_generate env prompt s =
     (fst (generate_content env prompt (world s)),
      \<lparr>world = snd (generate_content env prompt (world s)),
       events = events s @ [Generated prompt (fst (generate_content env prompt (world s)))]\<rparr>)"
  by (simp add: call_generate_def split: prod.splits)

lemma call_get_eq:
  "call_get env url params s =
     (fst (requests_get env url params (world s)),
      \<lparr>world = snd (requests_get env url params (world s)),
       events = events s @ [Requested url params (fst (requests_get env url params (world s)))]\<rparr>)"
  by (simp add: call_get_def split: prod.splits)

lemma name_stage_events:
  "events (snd (get_trail_name_from_gemini env d t la lo s))
     = events s @ [Generated (name_prompt env d t la lo)
                     (fst (generate_content env (name_prompt env d t la lo) (world s)))]"
  by (simp add: get_trail_name_from_gemini_def call_generate_eq split: gen_outcome.splits)


section \<open>The loops of the route resolver\<close>

lemma point_coordinate:
  "has_coordinate step k \<Longrightarrow> point step k = Some (coordinate_of step k)"
  by (auto simp: has_coordinate_def point_def coordinate_of_def lng_lat_def split: option.splits)

lemma length_coordinate: "has_coordinate step k \<Longrightarrow> length (coordinate_of step k) = 2"
  by (auto simp: has_coordinate_def coordinate_of_def split: option.splits)

lemma steps_loop_spec:
  "\<forall>step \<in> set steps. has_coordinate step ''start_location'' \<Longrightarrow>
   steps_loop steps acc = Some (acc @ map (\<lambda>step. coordinate_of step ''start_location'') steps)"
  by (induction steps arbitrary: acc) (simp_all add: point_coordinate)

lemma subscript_last: "steps \<noteq> [] \<Longrightarrow> subscript (JArr steps) (I (- 1)) = Some (last steps)"
  by (simp add: index_of_def last_conv_nth nat_diff_distrib')

lemma subscript_steps:
  "steps_of leg \<noteq> [] \<Longrightarrow> subscript leg (K ''steps'') = Some (JArr (steps_of leg))"
  by (auto simp: steps_of_def split: option.splits json.splits)

lemma legs_loop_spec:
  "\<forall>leg \<in> set legs. well_formed_leg leg \<Longrightarrow> legs_loop legs acc = Some (acc @ spec_flatten legs)"
proof (induction legs arbitrary: acc)
  case Nil
  then show ?case by (simp add: spec_flatten_def)
next
  case (Cons leg legs)
  then have wf: "well_formed_leg leg" and rest: "\<forall>leg \<in> set legs. well_formed_leg leg" by simp_all
  from wf have ne: "steps_of leg \<noteq> []"
    and starts: "\<forall>step \<in> set (steps_of leg). has_coordinate step ''start_location''"
    and final: "has_coordinate (last (steps_of leg)) ''end_location''"
    by (simp_all add: well_formed_leg_def)
  have "legs_loop (leg # legs) acc
      = legs_loop legs ((acc @ map (\<lambda>step. coordinate_of step ''start_location'') (steps_of leg))
                         @ [coordinate_of (last (steps_of leg)) ''end_location''])"
    by (simp add: subscript_steps[OF ne] steps_loop_spec[OF starts] subscript_last[OF ne]
        point_coordinate[OF final] del: subscript.simps)
  also have "\<dots> = Some (acc @ spec_flatten (leg # legs))"
    by (simp add: Cons.IH[OF rest] spec_flatten_def)
  finally show ?case .
qed

lemma length_spec_flatten: "length (spec_flatten legs) = step_count legs + length legs"
  by (induction legs) (simp_all add: spec_flatten_def step_count_def)

lemma pairs_spec_flatten:
  "\<forall>leg \<in> set legs. well_formed_leg leg \<Longrightarrow> \<forall>c \<in> set (spec_flatten legs). length c = 2"
  by (auto simp: spec_flatten_def well_formed_leg_def length_coordinate)


section \<open>The geocoding loop\<close>

lemma geocoded_succeeded: "geocoded out = Some c \<Longrightarrow> succeeded out"
  by (auto simp: geocoded_def succeeded_def split: http_outcome.splits option.splits if_splits)

lemma geocoded_pair: "geocoded out = Some c \<Longrightarrow> length c = 2"
  by (auto simp: geocoded_def lng_lat_def split: http_outcome.splits option.splits if_splits)

lemma geocode_loop_run:
  "geocode_loop env items acc s = (r, s') \<Longrightarrow>
   \<exists>new. events s' = events s @ new
     \<and> (\<forall>e \<in> set new. requested_url e = geocode_url)
     \<and> ((\<exists>e \<in> set new. geocoded_of e = None) \<longrightarrow> r = [])
     \<and> ((\<forall>e \<in> set new. geocoded_of e \<noteq> None) \<longrightarrow>
          length new = length items \<and> r = acc @ map (\<lambda>e. the (geocoded_of e)) new)
     \<and> (r = [] \<or> length r = length acc + length items)"
proof (induction items arbitrary: acc s)
  case Nil
  then show ?case by simp
next
  case (Cons waypoint rest)
  let ?out = "fst (requests_get env geocode_url (geocode_params env waypoint) (world s))"
  let ?ev = "Requested geocode_url (geocode_params env waypoint) ?out"
  let ?s1 = "\<lparr>world = snd (requests_get env geocode_url (geocode_params env waypoint) (world s)),
             events = events s @ [?ev]\<rparr>"
  show ?case
  proof (cases "geocoded ?out")
    case None
    with Cons.prems have "r = []" and "s' = ?s1" by (simp_all add: call_get_eq)
    then have "events s' = events s @ [?ev]" by simp
    moreover have "requested_url ?ev = geocode_url" by (simp add: requested_url_def)
    moreover have "geocoded_of ?ev = None" using None by (simp add: geocoded_of_def)
    ultimately show ?thesis using \<open>r = []\<close> by (intro exI[of _ "[?ev]"]) simp
  next
    case (Some c)
    with Cons.prems have run: "geocode_loop env rest (acc @ [c]) ?s1 = (r, s')"
      by (simp add: call_get_eq)
    from Cons.IH[OF run] obtain new where
      ev: "events s' = events ?s1 @ new"
      and urls: "\<forall>e \<in> set new. requested_url e = geocode_url"
      and fails: "(\<exists>e \<in> set new. geocoded_of e = None) \<longrightarrow> r = []"
      and all: "(\<forall>e \<in> set new. geocoded_of e \<noteq> None) \<longrightarrow>
          length new = length rest \<and> r = (acc @ [c]) @ map (\<lambda>e. the (geocoded_of e)) new"
      and len: "r = [] \<or> length r = length (acc @ [c]) + length rest"
      by blast
    have g: "geocoded_of ?ev = Some c" using Some by (simp add: geocoded_of_def)
    have u: "requested_url ?ev = geocode_url" by (simp add: requested_url_def)
    show ?thesis
      using ev urls fails all len g u by (intro exI[of _ "?ev # new"]) auto
  qed
qed

lemma request_failed_not_geocoded: "request_failed e \<Longrightarrow> geocoded_of e = None"
  by (cases e; cases "geocoded_of e")
     (auto simp: request_failed_def geocoded_of_def dest: geocoded_succeeded)


section \<open>The stages of the pipeline\<close>

lemma detail_stage_events:
  "events (snd (get_trail_detail_from_gemini env name s))
     = events s @ [Generated (detail_prompt name)
                     (fst (generate_content env (detail_prompt name) (world s)))]"
  by (simp add: get_trail_detail_from_gemini_def call_generate_eq
      split: gen_outcome.splits option.splits)

lemma urls_differ: "geocode_url \<noteq> directions_url" "directions_url \<noteq> []"
  by (simp_all add: geocode_url_def directions_url_def)

lemma waypoint_stage_state:
  "snd (get_trail_waypoints_from_gemini env name la lo s)
     = snd (call_generate env
              (waypoints_prompt name (format_value env (reverse_geocoded
                 (fst (call_get env geocode_url
                   [(''latlng'', JStr (format_value env (JFloat la) @ '','' @ format_value env (JFloat lo))),
                    (''key'', GOOGLE_MAPS_API_KEY env), (''region'', JStr ''kr'')] s)))))
              (snd (call_get env geocode_url
                   [(''latlng'', JStr (format_value env (JFloat la) @ '','' @ format_value env (JFloat lo))),
                    (''key'', GOOGLE_MAPS_API_KEY env), (''region'', JStr ''kr'')] s)))"
  unfolding get_trail_waypoints_from_gemini_def
  by (simp only: case_prod_beta split: gen_outcome.split option.split json.split) simp

lemma waypoint_stage_events:
  "\<exists>new. events (snd (get_trail_waypoints_from_gemini env name la lo s)) = events s @ new
     \<and> (\<forall>e \<in> set new. requested_url e \<noteq> directions_url)"
  unfolding waypoint_stage_state
  using urls_differ by (simp add: call_generate_eq call_get_eq requested_url_def)

lemma coordinates_stage_run:
  assumes "get_coordinates_for_waypoints env (JArr labels) s = (r, s')"
  shows "events s' = events s @ added s s'
     \<and> (\<forall>e \<in> set (added s s'). requested_url e = geocode_url)
     \<and> ((\<forall>e \<in> set (added s s'). geocoded_of e \<noteq> None) \<longrightarrow>
          length (added s s') = length labels
          \<and> r = Inr (map (\<lambda>e. the (geocoded_of e)) (added s s')))"
proof (cases "labels = []")
  case True
  with assms show ?thesis by (simp add: get_coordinates_for_waypoints_def added_def)
next
  case False
  obtain cs where run: "geocode_loop env labels [] s = (cs, s')" and r: "r = Inr cs"
    using assms False by (auto simp: get_coordinates_for_waypoints_def split: prod.splits)
  from geocode_loop_run[OF run] obtain new where
    ev: "events s' = events s @ new"
    and urls: "\<forall>e \<in> set new. requested_url e = geocode_url"
    and all: "(\<forall>e \<in> set new. geocoded_of e \<noteq> None) \<longrightarrow>
          length new = length labels \<and> cs = map (\<lambda>e. the (geocoded_of e)) new"
    by auto
  have "added s s' = new" using ev by (simp add: added_def)
  then show ?thesis using ev urls all r by simp
qed

lemma geocoded_of_pair: "geocoded_of e = Some c \<Longrightarrow> length c = 2"
  by (cases e) (auto simp: geocoded_of_def dest: geocoded_pair)

lemma coordinates_stage_returns:
  "truthy wp \<longrightarrow> py_iter wp \<noteq> None \<Longrightarrow>
   \<exists>cs. fst (get_coordinates_for_waypoints env wp s) = Inr cs"
  by (auto simp: get_coordinates_for_waypoints_def case_prod_beta)

lemma recommend_trail_named:
  assumes "get_trail_name_from_gemini env (distance req) (theme req) (latitude req)
             (longitude req) s = (name, s1)"
    and "name \<noteq> ''Recommendation failed''"
    and "get_trail_waypoints_from_gemini env name (latitude req) (longitude req)
           (snd (get_trail_detail_from_gemini env name s1)) = (wr, s3)"
  shows "recommend_trail env req s =
     (case wr of
        Inl e \<Rightarrow> (Inl e, s3)
      | Inr wp \<Rightarrow>
          (case fst (get_coordinates_for_waypoints env wp s3) of
             Inl e \<Rightarrow> (Inl e, snd (get_coordinates_for_waypoints env wp s3))
           | Inr cs \<Rightarrow> (Inr (TrailResponse name cs), snd (get_coordinates_for_waypoints env wp s3))))"
  using assms by (simp add: recommend_trail_def case_prod_beta split: sum.splits)


section \<open>The geocoding stage against the specification\<close>

lemma located_geocoded: "located e \<Longrightarrow> geocoded_of e = Some (spec_location (reply_of e))"
  by (cases e)
     (auto simp: located_def geocoded_of_def geocoded_def succeeded_def spec_location_def
        reply_of_def lng_lat_def split: http_outcome.splits option.splits)

lemma located_pair: "located e \<Longrightarrow> length (spec_location (reply_of e)) = 2"
  by (cases e) (auto simp: located_def spec_location_def split: option.splits)

lemma geocode_loop_requests:
  "geocode_loop env items acc s = (r, s') \<Longrightarrow>
   \<exists>new. events s' = events s @ new
     \<and> map request_of new
         = take (length new) (map (\<lambda>label. (geocode_url, geocode_params env label)) items)"
proof (induction items arbitrary: acc s)
  case Nil
  then show ?case by simp
next
  case (Cons waypoint rest)
  let ?out = "fst (requests_get env geocode_url (geocode_params env waypoint) (world s))"
  let ?ev = "Requested geocode_url (geocode_params env waypoint) ?out"
  let ?s1 = "\<lparr>world = snd (requests_get env geocode_url (geocode_params env waypoint) (world s)),
             events = events s @ [?ev]\<rparr>"
  have q: "request_of ?ev = (geocode_url, geocode_params env waypoint)"
    by (simp add: request_of_def)
  show ?case
  proof (cases "geocoded ?out")
    case None
    with Cons.prems have "s' = ?s1" by (simp add: call_get_eq)
    then have "events s' = events s @ [?ev]" by simp
    then show ?thesis using q by (intro exI[of _ "[?ev]"]) simp
  next
    case (Some c)
    with Cons.prems have run: "geocode_loop env rest (acc @ [c]) ?s1 = (r, s')"
      by (simp add: call_get_eq)
    from Cons.IH[OF run] obtain new where
      ev: "events s' = events ?s1 @ new"
      and rq: "map request_of new
         = take (length new) (map (\<lambda>label. (geocode_url, geocode_params env label)) rest)"
      by blast
    show ?thesis using ev rq q by (intro exI[of _ "?ev # new"]) simp
  qed
qed

lemma coordinates_stage_located:
  assumes "get_coordinates_for_waypoints env (JArr labels) s = (r, s')"
    and "\<forall>e \<in> set (added s s'). located e"
  shows "length (added s s') = length labels
     \<and> map request_of (added s s') = map (\<lambda>label. (geocode_url, geocode_params env label)) labels
     \<and> r = Inr (map (\<lambda>e. spec_location (reply_of e)) (added s s'))"
proof (cases "labels = []")
  case True
  with assms show ?thesis by (simp add: get_coordinates_for_waypoints_def added_def)
next
  case False
  obtain cs where run: "geocode_loop env labels [] s = (cs, s')" and r: "r = Inr cs"
    using assms(1) False by (auto simp: get_coordinates_for_waypoints_def split: prod.splits)
  from geocode_loop_run[OF run] obtain new where
    ev: "events s' = events s @ new"
    and all: "(\<forall>e \<in> set new. geocoded_of e \<noteq> None) \<longrightarrow>
          length new = length labels \<and> cs = map (\<lambda>e. the (geocoded_of e)) new"
    by auto
  from geocode_loop_requests[OF run] obtain new' where
    ev': "events s' = events s @ new'"
    and rq: "map request_of new'
         = take (length new') (map (\<lambda>label. (geocode_url, geocode_params env label)) labels)"
    by blast
  have a: "added s s' = new" using ev by (simp add: added_def)
  have same: "new' = new" using ev ev' by simp
  have loc: "\<forall>e \<in> set new. located e" using assms(2) a by simp
  then have "\<forall>e \<in> set new. geocoded_of e \<noteq> None" using located_geocoded by fastforce
  with all have len: "length new = length labels"
    and cs: "cs = map (\<lambda>e. the (geocoded_of e)) new" by simp_all
  have "map (\<lambda>e. the (geocoded_of e)) new = map (\<lambda>e. spec_location (reply_of e)) new"
    using loc located_geocoded by (intro map_cong) auto
  then show ?thesis using a len cs r rq same by simp
qed

section \<open>The scripted run\<close>

lemma stub_name_stage:
  "get_trail_name_from_gemini (stub_env (script text) http loads) d t la lo start
     = (strip text,
        \<lparr>world = Suc 0,
         events = [Generated (name_prompt (stub_env (script text) http loads) d t la lo)
                     (GenText text)]\<rparr>)"
  by (simp add: get_trail_name_from_gemini_def call_generate_eq stub_env_def script_def start_def)

lemma stub_detail_stage:
  assumes "world s = Suc 0"
  shows "get_trail_detail_from_gemini (stub_env (script text) http stub_loads) name s
     = (JObj [(''trail_name'', JInt 1)],
        \<lparr>world = Suc (Suc 0),
         events = events s @ [Generated (detail_prompt name)
                     (GenText ''```json\<newline>{\"trail_name\": 1}\<newline>```'')]\<rparr>)"
proof -
  have "clean_json_response (''```json\<newline>'' @ CHR ''{'' # ''\"trail_name\": 1'' @ CHR ''}'' # ''\<newline>```'')
      = CHR ''{'' # ''\"trail_name\": 1'' @ [CHR ''}'']"
    by (rule clean_braced) simp_all
  then have c: "clean_json_response ''```json\<newline>{\"trail_name\": 1}\<newline>```'' = ''{\"trail_name\": 1}''"
    by simp
  have l: "stub_loads ''{\"trail_name\": 1}'' = Some (JObj [(''trail_name'', JInt 1)])"
    by (simp add: stub_loads_def waypoints_payload_def)
  show ?thesis
    using assms
    by (simp add: get_trail_detail_from_gemini_def call_generate_eq stub_env_def script_def c l)
qed

lemma geocoded_hit:
  "geocoded (HttpJson (geocode_hit a lat lng)) = Some [JFloat (FloatVal lng), JFloat (FloatVal lat)]"
  by (simp add: geocoded_def geocode_hit_def location_json_def lng_lat_def index_of_def)

lemma reverse_geocoded_hit: "reverse_geocoded (HttpJson (geocode_hit a lat lng)) = JStr a"
  by (simp add: reverse_geocoded_def geocode_hit_def index_of_def)

lemma clean_waypoints_payload: "clean_json_response waypoints_payload = waypoints_payload"
proof -
  have w: "waypoints_payload = [] @ CHR ''{'' #
      ''\"waypoints\": [\"Gate, Seoul, South Korea\", \"Pond, Seoul, South Korea\", \"Hill, Seoul, South Korea\"]''
      @ CHR ''}'' # []"
    by (simp add: waypoints_payload_def)
  show ?thesis
    by (subst (1 2) w, subst clean_braced) simp_all
qed

lemma stub_waypoint_stage:
  assumes "world s = Suc (Suc 0)"
  shows "get_trail_waypoints_from_gemini (stub_env (script text) maps_seoul stub_loads) name la lo s
     = (Inr (JArr three_labels),
        \<lparr>world = Suc (Suc (Suc 0)),
         events = events s @
           [Requested geocode_url
              [(''latlng'', JStr ''<value>,<value>''), (''key'', JStr ''test-key''),
               (''region'', JStr ''kr'')]
              (HttpJson (geocode_hit ''Seoul City Hall'' 37.5665 126.978)),
            Generated (waypoints_prompt name ''Seoul City Hall'') (GenText waypoints_payload)]\<rparr>)"
proof -
  have u: "geocode_url \<noteq> directions_url" by (rule urls_differ)
  have g: "requests_get (stub_env (script text) maps_seoul stub_loads) geocode_url
             [(''latlng'', v), (''key'', k), (''region'', r)] w
      = (HttpJson (geocode_hit ''Seoul City Hall'' 37.5665 126.978), w)" for v k r w
    using u by (simp add: stub_env_def maps_seoul_def)
  have f: "py_str (stub_env (script text) maps_seoul stub_loads) v = ''<value>''" for v
    by (simp add: stub_env_def)
  have k: "GOOGLE_MAPS_API_KEY (stub_env (script text) maps_seoul stub_loads) = JStr ''test-key''"
    by (simp add: stub_env_def)
  have gen: "generate_content (stub_env (script text) maps_seoul stub_loads) p (Suc (Suc 0))
      = (GenText waypoints_payload, Suc (Suc (Suc 0)))" for p
    by (simp add: stub_env_def script_def)
  have l: "json_loads (stub_env (script text) maps_seoul stub_loads) waypoints_payload
      = Some (JObj [(''waypoints'', JArr three_labels)])"
    by (simp add: stub_env_def stub_loads_def)
  show ?thesis
    using assms
    by (simp add: get_trail_waypoints_from_gemini_def call_generate_eq call_get_eq g f k gen l
        clean_waypoints_payload reverse_geocoded_hit format_value_def)
qed

lemma stub_coordinates_stage:
  "get_coordinates_for_waypoints (stub_env sc maps_seoul loads) (JArr three_labels) s
     = (Inr [[JFloat (FloatVal 127.11), JFloat (FloatVal 37.51)],
             [JFloat (FloatVal 127.12), JFloat (FloatVal 37.52)],
             [JFloat (FloatVal 127.13), JFloat (FloatVal 37.53)]],
        \<lparr>world = world s,
         events = events s @
           [Requested geocode_url
              (geocode_params (stub_env sc maps_seoul loads) (JStr ''Gate, Seoul, South Korea''))
              (HttpJson (geocode_hit ''Gate'' 37.51 127.11)),
            Requested geocode_url
              (geocode_params (stub_env sc maps_seoul loads) (JStr ''Pond, Seoul, South Korea''))
              (HttpJson (geocode_hit ''Pond'' 37.52 127.12)),
            Requested geocode_url
              (geocode_params (stub_env sc maps_seoul loads) (JStr ''Hill, Seoul, South Korea''))
              (HttpJson (geocode_hit ''Hill'' 37.53 127.13))]\<rparr>)"
proof -
  have u: "geocode_url \<noteq> directions_url" by (rule urls_differ)
  have g1: "requests_get (stub_env sc maps_seoul loads) geocode_url
             ((''address'', JStr ''Gate, Seoul, South Korea'') # ps) w
      = (HttpJson (geocode_hit ''Gate'' 37.51 127.11), w)" for ps w
    using u by (simp add: stub_env_def maps_seoul_def)
  have g2: "requests_get (stub_env sc maps_seoul loads) geocode_url
             ((''address'', JStr ''Pond, Seoul, South Korea'') # ps) w
      = (HttpJson (geocode_hit ''Pond'' 37.52 127.12), w)" for ps w
    using u by (simp add: stub_env_def maps_seoul_def)
  have g3: "requests_get (stub_env sc maps_seoul loads) geocode_url
             ((''address'', JStr ''Hill, Seoul, South Korea'') # ps) w
      = (HttpJson (geocode_hit ''Hill'' 37.53 127.13), w)" for ps w
    using u by (simp add: stub_env_def maps_seoul_def)
  show ?thesis
    by (simp add: get_coordinates_for_waypoints_def three_labels_def call_get_eq
        geocode_params_def g1 g2 g3 geocoded_hit)
qed

lemma stub_run:
  assumes "strip text \<noteq> ''Recommendation failed''"
  shows "fst (recommend_trail (stub_env (script text) maps_seoul stub_loads) seoul_request start)
      = Inr (TrailResponse (strip text)
          [[JFloat (FloatVal 127.11), JFloat (FloatVal 37.51)],
           [JFloat (FloatVal 127.12), JFloat (FloatVal 37.52)],
           [JFloat (FloatVal 127.13), JFloat (FloatVal 37.53)]])"
    and "map requested_url
           (events (snd (recommend_trail (stub_env (script text) maps_seoul stub_loads) seoul_request start)))
      = [[], [], geocode_url, [], geocode_url, geocode_url, geocode_url]"
    and "map (\<lambda>e. map_of (snd (request_of e)) ''address'')
           (events (snd (recommend_trail (stub_env (script text) maps_seoul stub_loads) seoul_request start)))
      = [None, None, None, None, Some (JStr ''Gate, Seoul, South Korea''),
         Some (JStr ''Pond, Seoul, South Korea''), Some (JStr ''Hill, Seoul, South Korea'')]"
  using assms
  by (simp_all add: recommend_trail_def stub_name_stage stub_detail_stage stub_waypoint_stage
      stub_coordinates_stage requested_url_def request_of_def geocode_params_def)

section \<open>Claims about the response extractor\<close>

text \<open>
  C8. \<open>clean_json_response\<close> is idempotent on every text that contains a well-formed JSON
  object, whatever surrounds it (fences, prose). A JSON object begins with \<open>{\<close> and ends
  with \<open>}\<close>, so such a text is \<open>pre @ {mid} @ post\<close>; nothing more is used about it. The
  first application already returns the span from the first \<open>{\<close> to the last \<open>}\<close>, and the
  second one leaves that span as it is.
\<close>

theorem clean_json_response_idempotent:
  "clean_json_response (clean_json_response (pre @ CHR ''{'' # mid @ CHR ''}'' # post))
     = clean_json_response (pre @ CHR ''{'' # mid @ CHR ''}'' # post)"
proof -
  obtain pre0 mid0 post0
    where x: "pre @ CHR ''{'' # mid @ CHR ''}'' # post = pre0 @ CHR ''{'' # mid0 @ CHR ''}'' # post0"
      and n0: "CHR ''{'' \<notin> set pre0" and n1: "CHR ''}'' \<notin> set post0"
    using first_last_brace by blast
  have once: "clean_json_response (pre0 @ CHR ''{'' # mid0 @ CHR ''}'' # post0)
      = CHR ''{'' # mid0 @ [CHR ''}'']"
    using n0 n1 by (rule clean_braced)
  have again: "clean_json_response ([] @ CHR ''{'' # mid0 @ CHR ''}'' # [])
      = CHR ''{'' # mid0 @ [CHR ''}'']"
    by (rule clean_braced) simp_all
  show ?thesis unfolding x once using again by simp
qed

text \<open>
  C9. What \<open>clean_json_response\<close> returns, in four parts.
  \<^enum> The example of the specification: the fenced text \<open>```json\n{"a":1}\n```\<close> gives
    \<open>{"a":1}\<close>.
  \<^enum> When the text has a \<open>{\<close> before a \<open>}\<close>, the result is the span from the first \<open>{\<close> to the
    last \<open>}\<close>, both included, whatever stands before and after it.
  \<^enum> When the text has no \<open>{\<close> or no \<open>}\<close>, and is a body between a leading fence (\<open>```json\<close>,
    \<open>```\<close> or none) and a trailing fence (\<open>```\<close> or none), the result is the body with
    its surrounding whitespace removed. The body is what is left once the fences are
    taken away: it neither begins nor ends with \<open>```\<close>, and after the fence \<open>```\<close> it does not
    begin with \<open>json\<close> (the text would then begin with the fence \<open>```json\<close>, which is looked
    for first).
  \<^enum> When both braces occur and the last \<open>}\<close> stands before the first \<open>{\<close>, the slice from
    the one to the other is empty, and so is the result.
\<close>

theorem clean_json_response_extracts:
  "clean_json_response ''```json\<newline>{\"a\":1}\<newline>```'' = ''{\"a\":1}''
   \<and> (CHR ''{'' \<notin> set pre \<and> CHR ''}'' \<notin> set post \<longrightarrow>
        clean_json_response (pre @ CHR ''{'' # mid @ CHR ''}'' # post) = CHR ''{'' # mid @ ''}'')
   \<and> ((CHR ''{'' \<notin> set body \<or> CHR ''}'' \<notin> set body)
        \<and> \<not> startswith body ''```'' \<and> \<not> endswith body ''```''
        \<and> lead \<in> {[], ''```'', ''```json''} \<and> trail \<in> {[], ''```''}
        \<and> (lead = ''```'' \<longrightarrow> \<not> startswith body ''json'') \<longrightarrow>
        clean_json_response (lead @ body @ trail) = strip body)
   \<and> (CHR ''{'' \<notin> set (a @ CHR ''}'' # b) \<and> CHR ''}'' \<notin> set (b @ CHR ''{'' # c) \<longrightarrow>
        clean_json_response (a @ CHR ''}'' # b @ CHR ''{'' # c) = [])"
proof (intro conjI impI)
  have "clean_json_response (''```json\<newline>'' @ CHR ''{'' # ''\"a\":1'' @ CHR ''}'' # ''\<newline>```'')
      = CHR ''{'' # ''\"a\":1'' @ [CHR ''}'']"
    by (rule clean_braced) simp_all
  then show "clean_json_response ''```json\<newline>{\"a\":1}\<newline>```'' = ''{\"a\":1}''"
    by simp
next
  assume "CHR ''{'' \<notin> set pre \<and> CHR ''}'' \<notin> set post"
  then show "clean_json_response (pre @ CHR ''{'' # mid @ CHR ''}'' # post) = CHR ''{'' # mid @ ''}''"
    using clean_braced by blast
next
  assume h: "(CHR ''{'' \<notin> set body \<or> CHR ''}'' \<notin> set body)
        \<and> \<not> startswith body ''```'' \<and> \<not> endswith body ''```''
        \<and> lead \<in> {[], ''```'', ''```json''} \<and> trail \<in> {[], ''```''}
        \<and> (lead = ''```'' \<longrightarrow> \<not> startswith body ''json'')"
  show "clean_json_response (lead @ body @ trail) = strip body"
    by (rule clean_no_pair) (use h in blast)+
next
  assume "CHR ''{'' \<notin> set (a @ CHR ''}'' # b) \<and> CHR ''}'' \<notin> set (b @ CHR ''{'' # c)"
  then show "clean_json_response (a @ CHR ''}'' # b @ CHR ''{'' # c) = []"
    using clean_reversed by blast
qed

theorem clean_json_response_extracts_witness:
  "CHR ''{'' \<notin> set ''Here it is: '' \<and> CHR ''}'' \<notin> set '' (done)''
   \<and> clean_json_response (''Here it is: '' @ CHR ''{'' # ''\"a\": {\"b\": 2}'' @ CHR ''}'' # '' (done)'')
        = ''{\"a\": {\"b\": 2}}''
   \<and> CHR ''{'' \<notin> set ''\<newline> no object \<newline>''
   \<and> \<not> startswith ''\<newline> no object \<newline>'' ''```'' \<and> \<not> endswith ''\<newline> no object \<newline>'' ''```''
   \<and> clean_json_response (''```json'' @ ''\<newline> no object \<newline>'' @ ''```'') = ''no object''
   \<and> CHR ''{'' \<notin> set ([] @ CHR ''}'' # '' or '') \<and> CHR ''}'' \<notin> set ('' or '' @ CHR ''{'' # [])
   \<and> clean_json_response ([] @ CHR ''}'' # '' or '' @ CHR ''{'' # []) = []"
  using clean_json_response_extracts
    [where pre = "''Here it is: ''" and mid = "''\"a\": {\"b\": 2}''" and post = "'' (done)''"
       and body = "''\<newline> no object \<newline>''" and lead = "''```json''" and trail = "''```''"
       and a = "[]" and b = "'' or ''" and c = "[]"]
  by (simp add: startswith_def endswith_def strip_def isspace_def)

section \<open>Claims about the pipeline\<close>

text \<open>
  C1. When the naming stage returns \<open>Recommendation failed\<close>, \<open>recommend_trail\<close> returns the
  error response, and the only call it has made is the generation call of the naming stage:
  no detail or waypoint generation, no geocoding request.
\<close>

theorem naming_failure_aborts:
  assumes "fst (get_trail_name_from_gemini env (distance req) (theme req) (latitude req)
                  (longitude req) s) = ''Recommendation failed''"
  shows "fst (recommend_trail env req s) = Inr (ErrorResponse ''Gemini recommendation failed'')
    \<and> events (snd (recommend_trail env req s))
        = events s @
          [Generated (name_prompt env (distance req) (theme req) (latitude req) (longitude req))
             (fst (generate_content env
                     (name_prompt env (distance req) (theme req) (latitude req) (longitude req))
                     (world s)))]"
proof -
  obtain n s1 where st: "get_trail_name_from_gemini env (distance req) (theme req) (latitude req)
                  (longitude req) s = (n, s1)" by fastforce
  with assms have n: "n = ''Recommendation failed''" by simp
  have "recommend_trail env req s = (Inr (ErrorResponse ''Gemini recommendation failed''), s1)"
    unfolding recommend_trail_def st using n by simp
  moreover have "events s1 = events s @
          [Generated (name_prompt env (distance req) (theme req) (latitude req) (longitude req))
             (fst (generate_content env
                     (name_prompt env (distance req) (theme req) (latitude req) (longitude req))
                     (world s)))]"
    using name_stage_events[of env "distance req" "theme req" "latitude req" "longitude req" s] st
    by simp
  ultimately show ?thesis by simp
qed

theorem naming_failure_aborts_witness:
  "fst (get_trail_name_from_gemini (stub_env [] maps_up stub_loads) (distance seoul_request)
          (theme seoul_request) (latitude seoul_request) (longitude seoul_request) start)
     = ''Recommendation failed''
   \<and> fst (recommend_trail (stub_env [] maps_up stub_loads) seoul_request start)
       = Inr (ErrorResponse ''Gemini recommendation failed'')
   \<and> length (events (snd (recommend_trail (stub_env [] maps_up stub_loads) seoul_request start))) = 1"
proof -
  have h: "fst (get_trail_name_from_gemini (stub_env [] maps_up stub_loads) (distance seoul_request)
          (theme seoul_request) (latitude seoul_request) (longitude seoul_request) start)
     = ''Recommendation failed''"
    by (simp add: get_trail_name_from_gemini_def call_generate_eq stub_env_def start_def)
  from naming_failure_aborts[OF h] h show ?thesis by (simp add: start_def)
qed


text \<open>
  C2, as the program has it. Take a run where the naming stage returns a name other than
  the sentinel, the waypoint stage returns a list of labels, and every request of the last
  stage is answered with success and a first result that has a longitude and a latitude.
  Then
  \<^item> the response has the name as \<open>route_name\<close>;
  \<^item> the requests of the last stage are, in the order of the labels, one geocoding request
    per label, each with that label as its address;
  \<^item> \<open>coordinates\<close> is, in the same order, the location of the first result of the reply to
    each of these requests, as the specification reads it: longitude first, then latitude;
    so there is one coordinate per label, each a pair;
  \<^item> no request of the whole run goes to the directions endpoint.
\<close>

theorem pipeline_geocodes_labels:
  assumes n: "get_trail_name_from_gemini env (distance req) (theme req) (latitude req)
             (longitude req) s = (name, s1)"
    and ok: "name \<noteq> ''Recommendation failed''"
    and w: "get_trail_waypoints_from_gemini env name (latitude req) (longitude req)
           (snd (get_trail_detail_from_gemini env name s1)) = (Inr (JArr labels), s3)"
    and r: "recommend_trail env req s = (r, s4)"
    and g: "\<forall>e \<in> set (added s3 s4). located e"
  shows "r = Inr (TrailResponse name (map (\<lambda>e. spec_location (reply_of e)) (added s3 s4)))
    \<and> map request_of (added s3 s4)
         = map (\<lambda>label. (geocode_url, geocode_params env label)) labels
    \<and> (\<forall>label \<in> set labels. map_of (geocode_params env label) ''address'' = Some label)
    \<and> length (added s3 s4) = length labels
    \<and> (\<forall>e \<in> set (added s3 s4). length (spec_location (reply_of e)) = 2)
    \<and> (\<forall>e \<in> set (added s s4). requested_url e \<noteq> directions_url)"
proof -
  let ?s2 = "snd (get_trail_detail_from_gemini env name s1)"
  obtain cs where cs: "fst (get_coordinates_for_waypoints env (JArr labels) s3) = Inr cs"
    using coordinates_stage_returns[of "JArr labels"] by auto
  have rt: "recommend_trail env req s
      = (Inr (TrailResponse name cs), snd (get_coordinates_for_waypoints env (JArr labels) s3))"
    unfolding recommend_trail_named[OF n ok w] using cs by simp
  with r have r': "r = Inr (TrailResponse name cs)"
    and s4: "s4 = snd (get_coordinates_for_waypoints env (JArr labels) s3)" by simp_all
  have run: "get_coordinates_for_waypoints env (JArr labels) s3 = (Inr cs, s4)"
    using cs s4 by (metis prod.collapse)
  from coordinates_stage_run[OF run]
  have e4: "events s4 = events s3 @ added s3 s4"
    and u4: "\<forall>e \<in> set (added s3 s4). requested_url e = geocode_url"
    by simp_all
  from coordinates_stage_located[OF run g]
  have len: "length (added s3 s4) = length labels"
    and rq: "map request_of (added s3 s4)
         = map (\<lambda>label. (geocode_url, geocode_params env label)) labels"
    and map: "cs = map (\<lambda>e. spec_location (reply_of e)) (added s3 s4)"
    by simp_all
  have e1: "events s1 = events s @ [Generated (name_prompt env (distance req) (theme req)
        (latitude req) (longitude req)) (fst (generate_content env (name_prompt env (distance req)
        (theme req) (latitude req) (longitude req)) (world s)))]"
    using name_stage_events[of env "distance req" "theme req" "latitude req" "longitude req" s] n
    by simp
  have e2: "events ?s2 = events s1 @ [Generated (detail_prompt name)
        (fst (generate_content env (detail_prompt name) (world s1)))]"
    by (rule detail_stage_events)
  obtain new where e3: "events s3 = events ?s2 @ new"
    and u3: "\<forall>e \<in> set new. requested_url e \<noteq> directions_url"
    using waypoint_stage_events[of env name "latitude req" "longitude req" ?s2] w by auto
  have all: "added s s4 = Generated (name_prompt env (distance req) (theme req)
        (latitude req) (longitude req)) (fst (generate_content env (name_prompt env (distance req)
        (theme req) (latitude req) (longitude req)) (world s)))
      # Generated (detail_prompt name) (fst (generate_content env (detail_prompt name) (world s1)))
      # new @ added s3 s4"
    unfolding added_def[of s s4] by (simp add: e4 e3 e2 e1)
  have none: "\<forall>e \<in> set (added s s4). requested_url e \<noteq> directions_url"
    unfolding all using u3 u4 urls_differ by (auto simp: requested_url_def)
  have pairs: "\<forall>e \<in> set (added s3 s4). length (spec_location (reply_of e)) = 2"
    using g located_pair by blast
  have addr: "\<forall>label \<in> set labels. map_of (geocode_params env label) ''address'' = Some label"
    by (simp add: geocode_params_def)
  show ?thesis using r' map rq len pairs none addr by simp
qed

theorem pipeline_geocodes_labels_witness:
  "''2km Nature Trail'' \<noteq> ''Recommendation failed''
   \<and> three_labels = [JStr ''Gate, Seoul, South Korea'', JStr ''Pond, Seoul, South Korea'',
                       JStr ''Hill, Seoul, South Korea'']
   \<and> maps_seoul geocode_url [(''address'', JStr ''Gate, Seoul, South Korea'')]
       = HttpJson (geocode_hit ''Gate'' 37.51 127.11)
   \<and> maps_seoul geocode_url [(''address'', JStr ''Pond, Seoul, South Korea'')]
       = HttpJson (geocode_hit ''Pond'' 37.52 127.12)
   \<and> maps_seoul geocode_url [(''address'', JStr ''Hill, Seoul, South Korea'')]
       = HttpJson (geocode_hit ''Hill'' 37.53 127.13)
   \<and> fst (recommend_trail (stub_env (script ''2km Nature Trail'') maps_seoul stub_loads)
            seoul_request start)
       = Inr (TrailResponse ''2km Nature Trail''
           [[JFloat (FloatVal 127.11), JFloat (FloatVal 37.51)],
            [JFloat (FloatVal 127.12), JFloat (FloatVal 37.52)],
            [JFloat (FloatVal 127.13), JFloat (FloatVal 37.53)]])"
proof -
  let ?E = "stub_env (script ''2km Nature Trail'') maps_seoul stub_loads"
  let ?s1 = "\<lparr>world = Suc 0,
         events = [Generated (name_prompt ?E (distance seoul_request) (theme seoul_request)
                     (latitude seoul_request) (longitude seoul_request))
                     (GenText ''2km Nature Trail'')]\<rparr>"
  let ?s3 = "snd (get_trail_waypoints_from_gemini ?E ''2km Nature Trail'' (latitude seoul_request)
                (longitude seoul_request)
                (snd (get_trail_detail_from_gemini ?E ''2km Nature Trail'' ?s1)))"
  let ?s4 = "snd (get_coordinates_for_waypoints ?E (JArr three_labels) ?s3)"
  have st: "strip ''2km Nature Trail'' = ''2km Nature Trail''"
    by (simp add: strip_def isspace_def)
  have n: "get_trail_name_from_gemini ?E (distance seoul_request) (theme seoul_request)
             (latitude seoul_request) (longitude seoul_request) start
           = (''2km Nature Trail'', ?s1)"
    using stub_name_stage[of "''2km Nature Trail''" maps_seoul stub_loads] st by simp
  have ok: "''2km Nature Trail'' \<noteq> ''Recommendation failed''" by simp
  have w: "get_trail_waypoints_from_gemini ?E ''2km Nature Trail'' (latitude seoul_request)
             (longitude seoul_request)
             (snd (get_trail_detail_from_gemini ?E ''2km Nature Trail'' ?s1))
           = (Inr (JArr three_labels), ?s3)"
    by (simp add: stub_detail_stage stub_waypoint_stage)
  have r: "recommend_trail ?E seoul_request start
      = (Inr (TrailResponse ''2km Nature Trail''
           [[JFloat (FloatVal 127.11), JFloat (FloatVal 37.51)],
            [JFloat (FloatVal 127.12), JFloat (FloatVal 37.52)],
            [JFloat (FloatVal 127.13), JFloat (FloatVal 37.53)]]), ?s4)"
    unfolding recommend_trail_named[OF n ok w]
    by (simp add: stub_coordinates_stage)
  have a: "added ?s3 ?s4
      = [Requested geocode_url (geocode_params ?E (JStr ''Gate, Seoul, South Korea''))
              (HttpJson (geocode_hit ''Gate'' 37.51 127.11)),
         Requested geocode_url (geocode_params ?E (JStr ''Pond, Seoul, South Korea''))
              (HttpJson (geocode_hit ''Pond'' 37.52 127.12)),
         Requested geocode_url (geocode_params ?E (JStr ''Hill, Seoul, South Korea''))
              (HttpJson (geocode_hit ''Hill'' 37.53 127.13))]"
    by (simp add: added_def stub_coordinates_stage)
  have g: "\<forall>e \<in> set (added ?s3 ?s4). located e"
    unfolding a
    by (simp add: located_def succeeded_def reply_of_def geocode_hit_def location_json_def
        index_of_def)
  have m: "maps_seoul geocode_url [(''address'', JStr ''Gate, Seoul, South Korea'')]
       = HttpJson (geocode_hit ''Gate'' 37.51 127.11)"
    "maps_seoul geocode_url [(''address'', JStr ''Pond, Seoul, South Korea'')]
       = HttpJson (geocode_hit ''Pond'' 37.52 127.12)"
    "maps_seoul geocode_url [(''address'', JStr ''Hill, Seoul, South Korea'')]
       = HttpJson (geocode_hit ''Hill'' 37.53 127.13)"
    using urls_differ(1) by (simp_all add: maps_seoul_def)
  from pipeline_geocodes_labels[OF n ok w r g] r ok m show ?thesis
    by (simp add: three_labels_def)
qed

text \<open>
  C2, as stated, fails: the length of \<open>coordinates\<close> is not the step count of the stubbed
  directions response. With every provider succeeding, the waypoint generation answering
  with a JSON object of three labels, and a directions stub of 2 legs of 2 steps each
  (4 steps), the response carries 3 coordinates, those of the three labels; and the
  requests of the run are four geocoding requests and no directions request.
\<close>

theorem pipeline_ignores_directions:
  "fst (recommend_trail (stub_env (script ''2km Nature Trail'') maps_seoul stub_loads)
          seoul_request start)
     = Inr (TrailResponse ''2km Nature Trail''
         [[JFloat (FloatVal 127.11), JFloat (FloatVal 37.51)],
          [JFloat (FloatVal 127.12), JFloat (FloatVal 37.52)],
          [JFloat (FloatVal 127.13), JFloat (FloatVal 37.53)]])
   \<and> maps_seoul directions_url [] = HttpJson two_legs
   \<and> subscripts two_legs [K ''routes'', I 0, K ''legs''] = Some (JArr [first_leg, second_leg])
   \<and> step_count [first_leg, second_leg] = 4
   \<and> length (coordinates (projr (fst (recommend_trail
          (stub_env (script ''2km Nature Trail'') maps_seoul stub_loads) seoul_request start))))
       \<noteq> step_count [first_leg, second_leg]
   \<and> map requested_url (events (snd (recommend_trail
          (stub_env (script ''2km Nature Trail'') maps_seoul stub_loads) seoul_request start)))
       = [[], [], geocode_url, [], geocode_url, geocode_url, geocode_url]
   \<and> map (\<lambda>e. map_of (snd (request_of e)) ''address'') (events (snd (recommend_trail
          (stub_env (script ''2km Nature Trail'') maps_seoul stub_loads) seoul_request start)))
       = [None, None, None, None, Some (JStr ''Gate, Seoul, South Korea''),
          Some (JStr ''Pond, Seoul, South Korea''), Some (JStr ''Hill, Seoul, South Korea'')]"
proof -
  have st: "strip ''2km Nature Trail'' = ''2km Nature Trail''"
    by (simp add: strip_def isspace_def)
  then have ok: "strip ''2km Nature Trail'' \<noteq> ''Recommendation failed''" by simp
  have lg: "subscripts two_legs [K ''routes'', I 0, K ''legs''] = Some (JArr [first_leg, second_leg])"
    by (simp add: two_legs_def index_of_def)
  have sc: "step_count [first_leg, second_leg] = 4"
    by (simp add: step_count_def steps_of_def first_leg_def second_leg_def)
  have d: "maps_seoul directions_url [] = HttpJson two_legs" by (simp add: maps_seoul_def)
  from stub_run[OF ok] st lg sc d show ?thesis by simp
qed

text \<open>
  C3, as the program has it. When the naming stage returns a name other than the sentinel,
  every response the pipeline returns is the trail response whose \<open>route_name\<close> is that
  name, character for character; and it does return one whenever the waypoint stage returns a
  value that is false or iterable. Nothing makes the name non-empty.
\<close>

theorem route_name_is_naming_output:
  assumes "get_trail_name_from_gemini env (distance req) (theme req) (latitude req)
             (longitude req) s = (name, s1)"
    and "name \<noteq> ''Recommendation failed''"
  shows "(\<forall>r. fst (recommend_trail env req s) = Inr r \<longrightarrow> r = TrailResponse name (coordinates r))
    \<and> (\<forall>wp s3.
          get_trail_waypoints_from_gemini env name (latitude req) (longitude req)
            (snd (get_trail_detail_from_gemini env name s1)) = (Inr wp, s3)
          \<and> (truthy wp \<longrightarrow> py_iter wp \<noteq> None)
          \<longrightarrow> (\<exists>coords. fst (recommend_trail env req s) = Inr (TrailResponse name coords)))"
proof (intro conjI allI impI)
  fix r
  assume r: "fst (recommend_trail env req s) = Inr r"
  obtain wr s3 where w: "get_trail_waypoints_from_gemini env name (latitude req) (longitude req)
           (snd (get_trail_detail_from_gemini env name s1)) = (wr, s3)" by fastforce
  from r show "r = TrailResponse name (coordinates r)"
    unfolding recommend_trail_named[OF assms w] by (auto split: sum.splits)
next
  fix wp s3
  assume h: "get_trail_waypoints_from_gemini env name (latitude req) (longitude req)
            (snd (get_trail_detail_from_gemini env name s1)) = (Inr wp, s3)
          \<and> (truthy wp \<longrightarrow> py_iter wp \<noteq> None)"
  then obtain cs where "fst (get_coordinates_for_waypoints env wp s3) = Inr cs"
    using coordinates_stage_returns by blast
  then show "\<exists>coords. fst (recommend_trail env req s) = Inr (TrailResponse name coords)"
    using h unfolding recommend_trail_named[OF assms conjunct1[OF h]] by simp
qed

theorem route_name_is_naming_output_witness:
  "''2km Nature Trail'' \<noteq> ''Recommendation failed''
   \<and> json_loads (stub_env (script ''2km Nature Trail'') maps_seoul stub_loads) waypoints_payload
       = Some (JObj [(''waypoints'', JArr three_labels)])
   \<and> truthy (JArr three_labels) \<and> py_iter (JArr three_labels) \<noteq> None
   \<and> fst (recommend_trail (stub_env (script ''2km Nature Trail'') maps_seoul stub_loads)
            seoul_request start)
       = Inr (TrailResponse ''2km Nature Trail''
           (coordinates (projr (fst (recommend_trail
              (stub_env (script ''2km Nature Trail'') maps_seoul stub_loads)
              seoul_request start)))))"
proof -
  let ?E = "stub_env (script ''2km Nature Trail'') maps_seoul stub_loads"
  let ?s1 = "\<lparr>world = Suc 0,
         events = [Generated (name_prompt ?E (distance seoul_request) (theme seoul_request)
                     (latitude seoul_request) (longitude seoul_request))
                     (GenText ''2km Nature Trail'')]\<rparr>"
  have st: "strip ''2km Nature Trail'' = ''2km Nature Trail''"
    by (simp add: strip_def isspace_def)
  have n: "get_trail_name_from_gemini ?E (distance seoul_request) (theme seoul_request)
             (latitude seoul_request) (longitude seoul_request) start
           = (''2km Nature Trail'', ?s1)"
    using stub_name_stage[of "''2km Nature Trail''" maps_seoul stub_loads] st by simp
  have ok: "''2km Nature Trail'' \<noteq> ''Recommendation failed''" by simp
  have w: "get_trail_waypoints_from_gemini ?E ''2km Nature Trail'' (latitude seoul_request)
             (longitude seoul_request)
             (snd (get_trail_detail_from_gemini ?E ''2km Nature Trail'' ?s1))
           = (Inr (JArr three_labels),
              snd (get_trail_waypoints_from_gemini ?E ''2km Nature Trail'' (latitude seoul_request)
                (longitude seoul_request)
                (snd (get_trail_detail_from_gemini ?E ''2km Nature Trail'' ?s1))))"
    by (simp add: stub_detail_stage stub_waypoint_stage)
  have t: "truthy (JArr three_labels)" and i: "py_iter (JArr three_labels) \<noteq> None"
    by (simp_all add: three_labels_def)
  have l: "json_loads ?E waypoints_payload = Some (JObj [(''waypoints'', JArr three_labels)])"
    by (simp add: stub_env_def stub_loads_def)
  from route_name_is_naming_output[OF n ok] w t i
  obtain coords where c: "fst (recommend_trail ?E seoul_request start)
      = Inr (TrailResponse ''2km Nature Trail'' coords)"
    by blast
  show ?thesis using c ok t i l by simp
qed

text \<open>
  C3, as stated, fails on the word non-empty: a generated name of two spaces strips to the
  empty text, which is not the sentinel, and the response carries the empty \<open>route_name\<close>.
  The run is the one above with that name: the waypoint generation answers with a JSON
  object of three labels, and each label is geocoded.
\<close>

theorem blank_name_is_returned:
  "fst (get_trail_name_from_gemini (stub_env (script ''  '') maps_seoul stub_loads)
          (distance seoul_request) (theme seoul_request) (latitude seoul_request)
          (longitude seoul_request) start) = []
   \<and> [] \<noteq> ''Recommendation failed''
   \<and> fst (recommend_trail (stub_env (script ''  '') maps_seoul stub_loads) seoul_request start)
       = Inr (TrailResponse []
           [[JFloat (FloatVal 127.11), JFloat (FloatVal 37.51)],
            [JFloat (FloatVal 127.12), JFloat (FloatVal 37.52)],
            [JFloat (FloatVal 127.13), JFloat (FloatVal 37.53)]])
   \<and> route_name (projr (fst (recommend_trail (stub_env (script ''  '') maps_seoul stub_loads)
                               seoul_request start))) = []"
proof -
  have st: "strip ''  '' = []" by (simp add: strip_def isspace_def)
  have "strip ''  '' \<noteq> ''Recommendation failed''" using st by simp
  from stub_run(1)[OF this] st show ?thesis by (simp add: stub_name_stage)
qed

text \<open>
  The waypoint stage can also leave the pipeline without a response. When its generation
  call raises, the handler reads \<open>response.candidates\<close> of the reverse geocoding response,
  and the AttributeError is not caught.
\<close>

lemma failed_waypoint_generation_raises:
  "fst (recommend_trail (stub_env [GenText ''2km Nature Trail''] maps_up stub_loads)
          seoul_request start) = Inl AttributeError"
proof -
  have st: "strip ''2km Nature Trail'' = ''2km Nature Trail''"
    by (simp add: strip_def isspace_def)
  have u: "geocode_url \<noteq> directions_url" by (rule urls_differ)
  show ?thesis
    using u
    by (simp add: recommend_trail_def get_trail_name_from_gemini_def
        get_trail_detail_from_gemini_def get_trail_waypoints_from_gemini_def call_generate_eq
        call_get_eq stub_env_def start_def maps_up_def st)
qed

section \<open>Claims about the route resolver\<close>

text \<open>
  C6. On fewer than 2 waypoints \<open>get_directions_coordinates_from_waypoints\<close> returns the
  empty list and leaves the state as it was: the world is untouched and no event is added,
  so neither the key verification request nor the directions request was sent.
\<close>

theorem short_list_no_call:
  "length waypoints < 2 \<Longrightarrow> get_directions_coordinates_from_waypoints env waypoints s = ([], s)"
  by (simp add: get_directions_coordinates_from_waypoints_def)

theorem short_list_no_call_witness:
  "length [''Seoul Station, Seoul, South Korea''] < 2
   \<and> get_directions_coordinates_from_waypoints (stub_env [] maps_up stub_loads)
        [''Seoul Station, Seoul, South Korea''] start = ([], start)
   \<and> get_directions_coordinates_from_waypoints (stub_env [] maps_up stub_loads) [] start
        = ([], start)"
  using short_list_no_call[of "[''Seoul Station, Seoul, South Korea'']" "stub_env [] maps_up stub_loads" start]
    short_list_no_call[of "[]" "stub_env [] maps_up stub_loads" start]
  by simp

text \<open>
  C7. On 2 waypoints or more, when the key verification request fails (it raises, its
  answer is not JSON, or the status of the answer is not \<open>OK\<close>), the function returns the
  empty list and the verification request is the only event it adds: the directions
  request is not sent.
\<close>

theorem failed_verification_stops:
  assumes "2 \<le> length waypoints"
    and "requests_get env geocode_url (verify_params env) (world s) = (test, w)"
    and "\<not> succeeded test"
  shows "get_directions_coordinates_from_waypoints env waypoints s
     = ([], \<lparr>world = w, events = events s @ [Requested geocode_url (verify_params env) test]\<rparr>)"
  using assms by (simp add: get_directions_coordinates_from_waypoints_def call_get_eq)

theorem failed_verification_stops_witness:
  "2 \<le> length [''Gate, Seoul, South Korea'', ''Pond, Seoul, South Korea'']
   \<and> \<not> succeeded (HttpJson (geocode_miss ''REQUEST_DENIED''))
   \<and> get_directions_coordinates_from_waypoints (stub_env [] maps_denied stub_loads)
        [''Gate, Seoul, South Korea'', ''Pond, Seoul, South Korea''] start
      = ([], \<lparr>world = 0,
               events = [Requested geocode_url (verify_params (stub_env [] maps_denied stub_loads))
                           (HttpJson (geocode_miss ''REQUEST_DENIED''))]\<rparr>)"
proof -
  have l: "2 \<le> length [''Gate, Seoul, South Korea'', ''Pond, Seoul, South Korea'']" by simp
  have g: "requests_get (stub_env [] maps_denied stub_loads) geocode_url
             (verify_params (stub_env [] maps_denied stub_loads)) (world start)
           = (HttpJson (geocode_miss ''REQUEST_DENIED''), 0)"
    by (simp add: stub_env_def maps_denied_def start_def geocode_url_def directions_url_def)
  have f: "\<not> succeeded (HttpJson (geocode_miss ''REQUEST_DENIED''))"
    by (simp add: succeeded_def geocode_miss_def)
  from failed_verification_stops[OF l g f] l f show ?thesis by (simp add: start_def)
qed

text \<open>
  C4. On 2 waypoints or more, after a successful key verification, when the directions
  request returns a response with status \<open>OK\<close> whose first route has well-formed legs
  (each with at least one step, a start location on every step and an end location on the
  last), the result is the flattening the specification describes: for every leg in order,
  the start of every step, then the end of the leg's last step once, each as
  (longitude, latitude). Its length is the number of steps plus the number of legs, every
  coordinate has two components, and 2 legs of 2 steps each give exactly 6 coordinates.
\<close>

theorem directions_flattened:
  assumes "2 \<le> length waypoints"
    and "requests_get env geocode_url (verify_params env) (world s) = (test, w1)"
    and "succeeded test"
    and "requests_get env directions_url (directions_params env waypoints) w1 = (HttpJson data, w2)"
    and "subscript data (K ''status'') = Some (JStr ''OK'')"
    and "subscripts data [K ''routes'', I 0, K ''legs''] = Some (JArr legs)"
    and "\<forall>leg \<in> set legs. well_formed_leg leg"
  shows "fst (get_directions_coordinates_from_waypoints env waypoints s) = spec_flatten legs
    \<and> length (spec_flatten legs) = step_count legs + length legs
    \<and> (\<forall>c \<in> set (spec_flatten legs). length c = 2)
    \<and> (length legs = 2 \<and> (\<forall>leg \<in> set legs. length (steps_of leg) = 2) \<longrightarrow>
         length (fst (get_directions_coordinates_from_waypoints env waypoints s)) = 6)"
proof -
  have route: "route_coordinates (HttpJson data) = spec_flatten legs"
    using assms(5,6) legs_loop_spec[OF assms(7), of "[]"] by (simp add: route_coordinates_def)
  have res: "fst (get_directions_coordinates_from_waypoints env waypoints s) = spec_flatten legs"
    using assms(1-4) route
    by (simp add: get_directions_coordinates_from_waypoints_def call_get_eq)
  have six: "length (spec_flatten legs) = 6"
    if "length legs = 2" and "\<forall>leg \<in> set legs. length (steps_of leg) = 2"
  proof -
    from that(1) obtain a b where "legs = [a, b]"
      by (metis (no_types, opaque_lifting) One_nat_def Suc_1 length_0_conv length_Suc_conv)
    with that(2) show ?thesis by (simp add: length_spec_flatten step_count_def)
  qed
  show ?thesis using res length_spec_flatten pairs_spec_flatten[OF assms(7)] six by simp
qed

theorem directions_flattened_witness:
  "2 \<le> length [''Gate, Seoul, South Korea'', ''Pond, Seoul, South Korea'', ''Gate, Seoul, South Korea'']
   \<and> succeeded (HttpJson (geocode_hit ''Seoul City Hall'' 37.5665 126.978))
   \<and> well_formed_leg first_leg \<and> well_formed_leg second_leg
   \<and> fst (get_directions_coordinates_from_waypoints (stub_env [] maps_up stub_loads)
            [''Gate, Seoul, South Korea'', ''Pond, Seoul, South Korea'', ''Gate, Seoul, South Korea'']
            start)
       = [[JFloat (FloatVal 127.1), JFloat (FloatVal 37.1)],
          [JFloat (FloatVal 127.2), JFloat (FloatVal 37.2)],
          [JFloat (FloatVal 127.3), JFloat (FloatVal 37.3)],
          [JFloat (FloatVal 127.3), JFloat (FloatVal 37.3)],
          [JFloat (FloatVal 127.4), JFloat (FloatVal 37.4)],
          [JFloat (FloatVal 127.5), JFloat (FloatVal 37.5)]]
   \<and> length (fst (get_directions_coordinates_from_waypoints (stub_env [] maps_up stub_loads)
            [''Gate, Seoul, South Korea'', ''Pond, Seoul, South Korea'', ''Gate, Seoul, South Korea'']
            start)) = 6"
proof -
  let ?env = "stub_env [] maps_up stub_loads"
  let ?ws = "[''Gate, Seoul, South Korea'', ''Pond, Seoul, South Korea'', ''Gate, Seoul, South Korea'']"
  have l: "2 \<le> length ?ws" by simp
  have g: "requests_get ?env geocode_url (verify_params ?env) (world start)
      = (HttpJson (geocode_hit ''Seoul City Hall'' 37.5665 126.978), 0)"
    by (simp add: stub_env_def maps_up_def start_def geocode_url_def directions_url_def)
  have s: "succeeded (HttpJson (geocode_hit ''Seoul City Hall'' 37.5665 126.978))"
    by (simp add: succeeded_def geocode_hit_def)
  have d: "requests_get ?env directions_url (directions_params ?env ?ws) 0 = (HttpJson two_legs, 0)"
    by (simp add: stub_env_def maps_up_def)
  have st: "subscript two_legs (K ''status'') = Some (JStr ''OK'')"
    by (simp add: two_legs_def)
  have lg: "subscripts two_legs [K ''routes'', I 0, K ''legs''] = Some (JArr [first_leg, second_leg])"
    by (simp add: two_legs_def index_of_def)
  have w1: "well_formed_leg first_leg"
    by (simp add: well_formed_leg_def steps_of_def first_leg_def has_coordinate_def step_json_def
        location_json_def)
  have w2: "well_formed_leg second_leg"
    by (simp add: well_formed_leg_def steps_of_def second_leg_def has_coordinate_def step_json_def
        location_json_def)
  have wf: "\<forall>leg \<in> set [first_leg, second_leg]. well_formed_leg leg" using w1 w2 by simp
  have flat: "spec_flatten [first_leg, second_leg]
       = [[JFloat (FloatVal 127.1), JFloat (FloatVal 37.1)],
          [JFloat (FloatVal 127.2), JFloat (FloatVal 37.2)],
          [JFloat (FloatVal 127.3), JFloat (FloatVal 37.3)],
          [JFloat (FloatVal 127.3), JFloat (FloatVal 37.3)],
          [JFloat (FloatVal 127.4), JFloat (FloatVal 37.4)],
          [JFloat (FloatVal 127.5), JFloat (FloatVal 37.5)]]"
    by (simp add: spec_flatten_def steps_of_def first_leg_def second_leg_def coordinate_of_def
        step_json_def location_json_def)
  from directions_flattened[OF l g s d st lg wf] flat l s w1 w2 show ?thesis by simp
qed

text \<open>
  C5. \<open>get_coordinates_for_waypoints\<close> on a list of labels: when one of the requests the run
  makes fails (it raises, its answer is not JSON, or the status of the answer is not \<open>OK\<close>),
  the result is the empty list. Whatever happens, the result is the empty list or has one
  coordinate per label, never a part of them. With 3 labels of which the 2nd fails, the
  result is empty and the 3rd label is not requested.
\<close>

theorem geocoding_fails_fast:
  assumes "get_coordinates_for_waypoints env (JArr labels) s = (r, s')"
  shows "((\<exists>e \<in> set (added s s'). request_failed e) \<longrightarrow> r = Inr [])
    \<and> (\<exists>cs. r = Inr cs \<and> (cs = [] \<or> length cs = length labels))"
proof (cases "labels = []")
  case True
  with assms show ?thesis by (simp add: get_coordinates_for_waypoints_def added_def)
next
  case False
  obtain cs where run: "geocode_loop env labels [] s = (cs, s')" and r: "r = Inr cs"
    using assms False by (auto simp: get_coordinates_for_waypoints_def split: prod.splits)
  from geocode_loop_run[OF run] obtain new where
    ev: "events s' = events s @ new"
    and fails: "(\<exists>e \<in> set new. geocoded_of e = None) \<longrightarrow> cs = []"
    and len: "cs = [] \<or> length cs = length labels"
    by auto
  have "added s s' = new" using ev by (simp add: added_def)
  then show ?thesis using fails len r request_failed_not_geocoded by auto
qed

theorem geocoding_fails_fast_witness:
  "request_failed (Requested geocode_url
       (geocode_params (stub_env [] (maps_missing ''B'') stub_loads) (JStr ''B''))
       (HttpJson (geocode_miss ''ZERO_RESULTS'')))
   \<and> fst (get_coordinates_for_waypoints (stub_env [] (maps_missing ''B'') stub_loads)
            (JArr [JStr ''A'', JStr ''B'', JStr ''C'']) start) = Inr []
   \<and> map requested_url
        (events (snd (get_coordinates_for_waypoints (stub_env [] (maps_missing ''B'') stub_loads)
            (JArr [JStr ''A'', JStr ''B'', JStr ''C'']) start))) = [geocode_url, geocode_url]
   \<and> fst (get_coordinates_for_waypoints (stub_env [] maps_up stub_loads)
            (JArr [JStr ''A'', JStr ''B'', JStr ''C'']) start)
       = Inr [[JFloat (FloatVal 126.978), JFloat (FloatVal 37.5665)],
              [JFloat (FloatVal 126.978), JFloat (FloatVal 37.5665)],
              [JFloat (FloatVal 126.978), JFloat (FloatVal 37.5665)]]"
proof -
  let ?env = "stub_env [] (maps_missing ''B'') stub_loads"
  let ?ev = "Requested geocode_url (geocode_params ?env (JStr ''B''))
       (HttpJson (geocode_miss ''ZERO_RESULTS''))"
  let ?hit = "HttpJson (geocode_hit ''Seoul City Hall'' 37.5665 126.978)"
  have hit: "geocoded (HttpJson (geocode_hit a lat lng)) = Some [JFloat (FloatVal lng), JFloat (FloatVal lat)]"
    for a lat lng
    by (simp add: geocoded_def geocode_hit_def location_json_def lng_lat_def index_of_def)
  have miss: "geocoded (HttpJson (geocode_miss st)) = None" for st
    by (simp add: geocoded_def geocode_miss_def index_of_def)
  have run: "get_coordinates_for_waypoints ?env (JArr [JStr ''A'', JStr ''B'', JStr ''C'']) start
      = (Inr [], \<lparr>world = 0,
           events = [Requested geocode_url (geocode_params ?env (JStr ''A'')) ?hit, ?ev]\<rparr>)"
    by (simp add: get_coordinates_for_waypoints_def call_get_eq stub_env_def maps_missing_def
        geocode_params_def start_def geocode_url_def directions_url_def hit miss)
  have f: "request_failed ?ev"
    by (simp add: request_failed_def succeeded_def geocode_miss_def)
  have inn: "\<exists>e \<in> set (added start (\<lparr>world = 0,
           events = [Requested geocode_url (geocode_params ?env (JStr ''A'')) ?hit, ?ev]\<rparr>)). request_failed e"
    using f by (simp add: added_def start_def)
  have up: "fst (get_coordinates_for_waypoints (stub_env [] maps_up stub_loads)
            (JArr [JStr ''A'', JStr ''B'', JStr ''C'']) start)
       = Inr [[JFloat (FloatVal 126.978), JFloat (FloatVal 37.5665)],
              [JFloat (FloatVal 126.978), JFloat (FloatVal 37.5665)],
              [JFloat (FloatVal 126.978), JFloat (FloatVal 37.5665)]]"
    by (simp add: get_coordinates_for_waypoints_def call_get_eq stub_env_def maps_up_def
        geocode_params_def start_def geocode_url_def directions_url_def hit)
  from geocoding_fails_fast[OF run] inn f run up show ?thesis
    by (simp add: requested_url_def)
qed

section \<open>The sentinel and a name that equals it\<close>

text \<open>
  C10. The pipeline recognises a failed naming stage by comparing the name with the text
  \<open>Recommendation failed\<close>. When the generation service answers the naming prompt with a
  text that is this sentinel once stripped, the pipeline returns the error response although
  no provider failed, and the response is the one of any run in which the naming call
  raised: the caller cannot tell the two apart.
\<close>

theorem sentinel_collision:
  assumes "generate_content env
             (name_prompt env (distance req) (theme req) (latitude req) (longitude req)) (world s)
           = (GenText text, w)"
    and "strip text = ''Recommendation failed''"
  shows "fst (recommend_trail env req s) = Inr (ErrorResponse ''Gemini recommendation failed'')
    \<and> (fst (generate_content env'
              (name_prompt env' (distance req) (theme req) (latitude req) (longitude req)) (world s'))
          = GenRaises
        \<longrightarrow> fst (recommend_trail env' req s') = fst (recommend_trail env req s))"
proof -
  have a: "fst (get_trail_name_from_gemini env (distance req) (theme req) (latitude req)
                  (longitude req) s) = ''Recommendation failed''"
    using assms by (simp add: get_trail_name_from_gemini_def call_generate_eq)
  have b: "fst (recommend_trail env req s) = Inr (ErrorResponse ''Gemini recommendation failed'')"
    using a by (simp add: recommend_trail_def case_prod_beta)
  have c: "fst (recommend_trail env' req s') = Inr (ErrorResponse ''Gemini recommendation failed'')"
    if "fst (generate_content env'
              (name_prompt env' (distance req) (theme req) (latitude req) (longitude req)) (world s'))
          = GenRaises"
  proof -
    have "fst (get_trail_name_from_gemini env' (distance req) (theme req) (latitude req)
                  (longitude req) s') = ''Recommendation failed''"
      using that by (simp add: get_trail_name_from_gemini_def call_generate_eq)
    then show ?thesis by (simp add: recommend_trail_def case_prod_beta)
  qed
  show ?thesis using b c by simp
qed

theorem sentinel_collision_witness:
  "strip '' Recommendation failed\<newline>'' = ''Recommendation failed''
   \<and> fst (recommend_trail (stub_env (script '' Recommendation failed\<newline>'') maps_up stub_loads)
            seoul_request start)
       = Inr (ErrorResponse ''Gemini recommendation failed'')
   \<and> fst (recommend_trail (stub_env [] maps_up stub_loads) seoul_request start)
       = fst (recommend_trail (stub_env (script '' Recommendation failed\<newline>'') maps_up stub_loads)
                seoul_request start)"
proof -
  have g: "generate_content (stub_env (script '' Recommendation failed\<newline>'') maps_up stub_loads)
             (name_prompt (stub_env (script '' Recommendation failed\<newline>'') maps_up stub_loads)
                (distance seoul_request) (theme seoul_request) (latitude seoul_request)
                (longitude seoul_request)) (world start)
           = (GenText '' Recommendation failed\<newline>'', Suc 0)"
    by (simp add: stub_env_def script_def start_def)
  have t: "strip '' Recommendation failed\<newline>'' = ''Recommendation failed''"
    by (simp add: strip_def isspace_def)
  have r: "fst (generate_content (stub_env [] maps_up stub_loads)
              (name_prompt (stub_env [] maps_up stub_loads) (distance seoul_request)
                 (theme seoul_request) (latitude seoul_request) (longitude seoul_request))
              (world start)) = GenRaises"
    by (simp add: stub_env_def)
  from sentinel_collision[OF g t, of "stub_env [] maps_up stub_loads" start] r t
  show ?thesis by simp
qed
end
